theory Spec2Isabelle
  imports Main "HOL-Library.Sublist" "HOL-Library.Multiset"
begin

section \<open>Python strings\<close>

text \<open>
  A Python \<open>str\<close> is modelled as a \<open>string\<close>, each \<open>char\<close> standing for one code
  point: the chars 128 and 129 for the code points 924 and 376 (the capitals of the micro
  sign and of the y with diaeresis, code points 181 and 255), every other \<open>char\<close> for the
  code point of its own number, so that the capital of every letter of the alphabet is in
  the alphabet. An optional value (a dictionary key that may be absent, an argument that
  may be \<open>None\<close>) is an \<open>option\<close>.
\<close>

definition truthy :: "string option \<Rightarrow> bool" where
  \<comment> \<open>\<open>bool(d.get(k))\<close> for a string field: absent, \<open>None\<close> and the empty string are false.\<close>
  "truthy v = (case v of None \<Rightarrow> False | Some s \<Rightarrow> s \<noteq> [])"

definition str_val :: "string option \<Rightarrow> string" where
  \<comment> \<open>the value read back by \<open>d[k]\<close> after \<open>d.get(k)\<close> was found truthy\<close>
  "str_val v = (case v of None \<Rightarrow> [] | Some s \<Rightarrow> s)"

definition isspace :: "char \<Rightarrow> bool" where
  \<comment> \<open>\<open>str.isspace\<close>: the white space among the code points below 256 (the code points
      924 and 376 are letters)\<close>
  "isspace c = ((of_char c :: nat) \<in> {9, 10, 11, 12, 13, 28, 29, 30, 31, 32, 133, 160})"

definition strip :: "string \<Rightarrow> string" where
  "strip s = rev (dropWhile isspace (rev (dropWhile isspace s)))"

fun join :: "string \<Rightarrow> string list \<Rightarrow> string" where
  "join sep [] = []"
| "join sep [x] = x"
| "join sep (x # y # ys) = x @ sep @ join sep (y # ys)"

definition replace_char :: "char \<Rightarrow> char \<Rightarrow> string \<Rightarrow> string" where
  \<comment> \<open>\<open>s.replace(a, b)\<close> for one-character \<open>a\<close> and \<open>b\<close>\<close>
  "replace_char a b s = map (\<lambda>c. if c = a then b else c) s"

definition startswith :: "string \<Rightarrow> string \<Rightarrow> bool" where
  "startswith s p = (take (length p) s = p)"

fun remove_all :: "string \<Rightarrow> string \<Rightarrow> string" where
  \<comment> \<open>\<open>s.replace(old, "")\<close> for a non-empty \<open>old\<close>: leftmost, non-overlapping occurrences\<close>
  "remove_all old [] = []"
| "remove_all old (c # cs) =
     (if old \<noteq> [] \<and> take (length old) (c # cs) = old
      then remove_all old (drop (length old) (c # cs))
      else c # remove_all old cs)"

definition upper_char :: "char \<Rightarrow> string" where
  \<comment> \<open>\<open>str.upper\<close> on one character: the small letters (97 to 122, and 224 to 254 but
      the division sign 247) become the capital 32 below, the sharp s (223) becomes two
      capitals, 181 and 255 become the chars that stand for their capitals; a character
      with no capital stays\<close>
  "upper_char c =
     (let n = (of_char c :: nat)
      in if (97 \<le> n \<and> n \<le> 122) \<or> (224 \<le> n \<and> n \<le> 254 \<and> n \<noteq> 247)
         then [char_of (n - 32)]
         else if n = 223 then ''SS''
         else if n = 181 then [char_of (128 :: nat)]
         else if n = 255 then [char_of (129 :: nat)]
         else [c])"

definition upper :: "string \<Rightarrow> string" where
  "upper s = concat (map upper_char s)"

fun str_of_nat :: "nat \<Rightarrow> string" where
  "str_of_nat n =
     (if n < 10 then [''0123456789'' ! n]
      else str_of_nat (n div 10) @ [''0123456789'' ! (n mod 10)])"

declare str_of_nat.simps [simp del]

definition str_of_int :: "int \<Rightarrow> string" where
  "str_of_int i = (if i < 0 then ''-'' @ str_of_nat (nat (- i)) else str_of_nat (nat i))"

section \<open>Method resolution (app.py)\<close>

definition has_content :: "string option \<Rightarrow> bool" where
  \<comment> \<open>\<open>bool(text and text.strip())\<close>\<close>
  "has_content v = (case v of None \<Rightarrow> False | Some s \<Rightarrow> s \<noteq> [] \<and> strip s \<noteq> [])"

definition determine_method :: "string option \<Rightarrow> string option \<Rightarrow> string \<Rightarrow> string" where
  "determine_method text image_url dflt =
     (let has_text = has_content text;
          has_image = has_content image_url
      in if has_text \<and> has_image then ''text_and_image''
         else if has_text then ''text_description''
         else if has_image then ''image_reference''
         else dflt)"

text \<open>
  The precedence table of the specification, on its own terms: a field is present when it
  holds a character that is not white space.
\<close>

definition present :: "string option \<Rightarrow> bool" where
  "present v = (case v of None \<Rightarrow> False | Some s \<Rightarrow> filter (\<lambda>c. \<not> isspace c) s \<noteq> [])"

fun resolve :: "bool \<Rightarrow> bool \<Rightarrow> string \<Rightarrow> string" where
  "resolve True True dflt = ''text_and_image''"
| "resolve True False dflt = ''text_description''"
| "resolve False True dflt = ''image_reference''"
| "resolve False False dflt = dflt"

section \<open>Batch variation (gemini_client.py, generate_image)\<close>

datatype part = Text string | InlineData string string

definition dynamic_angles_variations :: "string list" where
  "dynamic_angles_variations =
     [''Slightly different camera angle'',
      ''Different pose variation'',
      ''Alternative composition'',
      ''Varied perspective'',
      ''Different lighting angle'',
      ''Alternative framing'',
      ''Shifted viewpoint'',
      ''New angle approach'',
      ''Fresh perspective'',
      ''Different positioning'']"

definition subtle_variations :: "string list" where
  "subtle_variations =
     [''Slight variation in expression'',
      ''Minor pose adjustment'',
      ''Subtle lighting change'',
      ''Small composition shift'',
      ''Gentle variation'']"

definition final_prompt :: "string \<Rightarrow> int option \<Rightarrow> string option \<Rightarrow> string" where
  \<comment> \<open>Python's \<open>%\<close> with a positive divisor is never negative, as \<open>mod\<close> on \<open>int\<close>.\<close>
  "final_prompt prompt batch_index batch_variety =
     (if batch_index \<noteq> None \<and> batch_variety = Some ''dynamic_angles'' then
        dynamic_angles_variations
          ! nat (the batch_index mod int (length dynamic_angles_variations)) @ ''. '' @ prompt
      else if batch_index \<noteq> None \<and> batch_variety = Some ''subtle_variations'' then
        subtle_variations
          ! nat (the batch_index mod int (length subtle_variations)) @ ''. '' @ prompt
      else prompt)"

definition request_parts ::
  "string \<Rightarrow> part list \<Rightarrow> int option \<Rightarrow> string option \<Rightarrow> part list" where
  \<comment> \<open>the \<open>parts\<close> of the request body: the prompt first, then the shared image parts\<close>
  "request_parts prompt image_parts batch_index batch_variety =
     Text (final_prompt prompt batch_index batch_variety) # image_parts"

section \<open>Configuration\<close>

text \<open>
  The configuration is a dictionary of sections. Each section is a record of the keys the
  application writes; a field is \<open>None\<close> when its key is absent, so the empty dictionary
  is the record with every field \<open>None\<close>. The float under \<open>strength\<close> enters the prompt
  only as \<open>int(strength * 100)\<close>; the model stores that integer.
\<close>

definition get_str :: "string option \<Rightarrow> string \<Rightarrow> string" where
  \<comment> \<open>\<open>d.get(k, dflt)\<close>\<close>
  "get_str v dflt = (case v of None \<Rightarrow> dflt | Some s \<Rightarrow> s)"

record model_reference =
  mr_method :: "string option"
  mr_text_description :: "string option"
  mr_image_url :: "string option"
  mr_face_action :: "string option"
  mr_new_model_description :: "string option"
  mr_ethnicity :: "string option"
  mr_hair_color :: "string option"
  mr_age :: "string option"

record base_outfit =
  bo_method :: "string option"
  bo_text_description :: "string option"
  bo_image_url :: "string option"
  bo_preservation_level :: "string option"
  bo_garments_to_preserve :: "string list option"

record item =
  it_type :: "string option"
  it_text :: "string option"
  it_image_url :: "string option"

record jewelry_location =
  jl_enabled :: "bool option"
  jl_method :: "string option"
  jl_text :: "string option"
  jl_image_url :: "string option"

record jewelry =
  jw_neck :: "jewelry_location option"
  jw_ears :: "jewelry_location option"
  jw_hands_wrists :: "jewelry_location option"

record environment =
  env_category :: "string option"
  env_method :: "string option"
  env_text_description :: "string option"
  env_image_url :: "string option"

record pose =
  pose_method :: "string option"
  pose_text :: "string option"
  pose_image_url :: "string option"
  pose_strength_percent :: "int option"

record hair =
  hair_method :: "string option"
  hair_text :: "string option"
  hair_image_url :: "string option"

record photography =
  ph_aesthetic :: "string option"
  ph_framing :: "string option"
  ph_lighting :: "string option"
  ph_shadows :: "string option"
  ph_pose :: "pose option"
  ph_hair :: "hair option"

record output_section =
  out_count :: "int option"
  out_batch_variety :: "string option"

record meta =
  meta_job_id :: "string option"
  meta_client_id :: "string option"
  meta_platform_preset :: "string option"

definition empty_model_reference :: model_reference where
  "empty_model_reference =
     \<lparr>mr_method = None, mr_text_description = None, mr_image_url = None,
      mr_face_action = None, mr_new_model_description = None, mr_ethnicity = None,
      mr_hair_color = None, mr_age = None\<rparr>"

definition empty_base_outfit :: base_outfit where
  "empty_base_outfit =
     \<lparr>bo_method = None, bo_text_description = None, bo_image_url = None,
      bo_preservation_level = None, bo_garments_to_preserve = None\<rparr>"

definition empty_jewelry_location :: jewelry_location where
  "empty_jewelry_location =
     \<lparr>jl_enabled = None, jl_method = None, jl_text = None, jl_image_url = None\<rparr>"

definition empty_jewelry :: jewelry where
  "empty_jewelry = \<lparr>jw_neck = None, jw_ears = None, jw_hands_wrists = None\<rparr>"

definition empty_environment :: environment where
  "empty_environment =
     \<lparr>env_category = None, env_method = None, env_text_description = None,
      env_image_url = None\<rparr>"

definition empty_pose :: pose where
  "empty_pose =
     \<lparr>pose_method = None, pose_text = None, pose_image_url = None,
      pose_strength_percent = None\<rparr>"

definition empty_hair :: hair where
  "empty_hair = \<lparr>hair_method = None, hair_text = None, hair_image_url = None\<rparr>"

definition empty_photography :: photography where
  "empty_photography =
     \<lparr>ph_aesthetic = None, ph_framing = None, ph_lighting = None, ph_shadows = None,
      ph_pose = None, ph_hair = None\<rparr>"

definition empty_output :: output_section where
  "empty_output = \<lparr>out_count = None, out_batch_variety = None\<rparr>"

text \<open>
  The top-level dictionary keeps its keys in insertion order: it is the list of its
  entries, one constructor for each key, each key at most once.
\<close>

datatype entry =
    Meta meta
  | ModelReference model_reference
  | BaseOutfit base_outfit
  | AdditionalItems "item list"
  | Jewelry jewelry
  | Environment environment
  | Photography photography
  | Output output_section

type_synonym config = "entry list"

fun key_of :: "entry \<Rightarrow> string" where
  "key_of (Meta _) = ''meta''"
| "key_of (ModelReference _) = ''model_reference''"
| "key_of (BaseOutfit _) = ''base_outfit''"
| "key_of (AdditionalItems _) = ''additional_items''"
| "key_of (Jewelry _) = ''jewelry''"
| "key_of (Environment _) = ''environment''"
| "key_of (Photography _) = ''photography''"
| "key_of (Output _) = ''output''"

definition lookup :: "config \<Rightarrow> string \<Rightarrow> entry option" where
  "lookup config k = find (\<lambda>e. key_of e = k) config"

definition get_model_reference :: "config \<Rightarrow> model_reference" where
  \<comment> \<open>\<open>config.get("model_reference", {})\<close>\<close>
  "get_model_reference config =
     (case lookup config ''model_reference'' of
        Some (ModelReference r) \<Rightarrow> r | _ \<Rightarrow> empty_model_reference)"

definition get_base_outfit :: "config \<Rightarrow> base_outfit" where
  "get_base_outfit config =
     (case lookup config ''base_outfit'' of
        Some (BaseOutfit r) \<Rightarrow> r | _ \<Rightarrow> empty_base_outfit)"

definition get_additional_items :: "config \<Rightarrow> item list" where
  \<comment> \<open>\<open>config.get("additional_items", [])\<close>\<close>
  "get_additional_items config =
     (case lookup config ''additional_items'' of
        Some (AdditionalItems r) \<Rightarrow> r | _ \<Rightarrow> [])"

definition get_jewelry :: "config \<Rightarrow> jewelry" where
  "get_jewelry config =
     (case lookup config ''jewelry'' of
        Some (Jewelry r) \<Rightarrow> r | _ \<Rightarrow> empty_jewelry)"

definition get_environment :: "config \<Rightarrow> environment" where
  "get_environment config =
     (case lookup config ''environment'' of
        Some (Environment r) \<Rightarrow> r | _ \<Rightarrow> empty_environment)"

definition get_photography :: "config \<Rightarrow> photography" where
  "get_photography config =
     (case lookup config ''photography'' of
        Some (Photography r) \<Rightarrow> r | _ \<Rightarrow> empty_photography)"

definition get_output :: "config \<Rightarrow> output_section" where
  "get_output config =
     (case lookup config ''output'' of
        Some (Output r) \<Rightarrow> r | _ \<Rightarrow> empty_output)"

definition get_location :: "jewelry_location option \<Rightarrow> jewelry_location" where
  \<comment> \<open>\<open>jewelry.get("neck", {})\<close>\<close>
  "get_location v = (case v of None \<Rightarrow> empty_jewelry_location | Some l \<Rightarrow> l)"

definition get_pose :: "photography \<Rightarrow> pose" where
  "get_pose photography = (case ph_pose photography of None \<Rightarrow> empty_pose | Some p \<Rightarrow> p)"

definition get_hair :: "photography \<Rightarrow> hair" where
  "get_hair photography = (case ph_hair photography of None \<Rightarrow> empty_hair | Some h \<Rightarrow> h)"

definition enabled :: "jewelry_location \<Rightarrow> bool" where
  \<comment> \<open>the truth value of \<open>loc.get("enabled")\<close>\<close>
  "enabled loc = (jl_enabled loc = Some True)"

section \<open>Prompt builders (prompt_builder.py)\<close>

type_synonym image_mapping = "string \<rightharpoonup> string"

definition or_empty :: "image_mapping option \<Rightarrow> image_mapping" where
  \<comment> \<open>\<open>image_mapping or {}\<close>\<close>
  "or_empty image_mapping = (case image_mapping of None \<Rightarrow> Map.empty | Some m \<Rightarrow> m)"

definition get_label :: "image_mapping \<Rightarrow> string \<Rightarrow> string \<Rightarrow> string" where
  \<comment> \<open>\<open>image_mapping.get(k, dflt)\<close>\<close>
  "get_label image_mapping k dflt = (case image_mapping k of None \<Rightarrow> dflt | Some v \<Rightarrow> v)"

definition map_platform_preset_to_aspect_ratio :: "string \<Rightarrow> string" where
  "map_platform_preset_to_aspect_ratio preset =
     (if preset = ''instagram_portrait'' then ''4:5''
      else if preset = ''instagram_story'' then ''9:16''
      else if preset = ''instagram_square'' then ''1:1''
      else if preset = ''default'' then ''2:3''
      else ''2:3'')"

definition build_model_reference_prompt ::
  "model_reference \<Rightarrow> image_mapping option \<Rightarrow> string list" where
  \<comment> \<open>\<open>parts\<close> starts empty and is only appended to: it is the concatenation of what
      each statement appends\<close>
  "build_model_reference_prompt model_ref image_mapping0 =
     (let image_mapping = or_empty image_mapping0;
          face_action = get_str (mr_face_action model_ref) ''keep''
      in (if truthy (mr_text_description model_ref) then
            [''Model appearance: ''
               @ str_val (mr_text_description model_ref)
               @ ''.'']
          else [])
         @ (if face_action = ''keep'' then
              (if truthy (mr_image_url model_ref) \<and> image_mapping ''model_ref'' \<noteq> None then
                 [''CRITICAL: Extract and use the EXACT same face from ''
                    @ the (image_mapping ''model_ref'')
                    @ ''. The face features (eyes, nose, mouth, facial structure, skin tone, ''
                    @ ''facial proportions) must match exactly. Also extract the body figure and ''
                    @ ''proportions from ''
                    @ the (image_mapping ''model_ref'')
                    @ ''. IGNORE the background, clothing, outfit, accessories, and any other ''
                    @ ''elements from the model reference image.'']
               else
                 [''CRITICAL: Extract and use the EXACT same face from the model reference ''
                    @ ''image. The face features must match exactly. Also extract the body figure ''
                    @ ''and proportions. IGNORE the background, clothing, outfit, accessories, ''
                    @ ''and any other elements.''])
            else if face_action = ''generate'' then
              (if truthy (mr_new_model_description model_ref) then
                 [''Generate a new model with the following characteristics: ''
                    @ str_val (mr_new_model_description model_ref)
                    @ ''.'']
               else
                 [''Generate a new model face.''])
            else [])
         @ (if truthy (mr_image_url model_ref) \<and> face_action = ''keep'' then
              [''IMPORTANT: The model reference image should ONLY be used to extract the ''
                 @ ''face and body figure. Do not use any other elements from that image.'']
            else []))"

definition build_outfit_prompt :: "base_outfit \<Rightarrow> image_mapping option \<Rightarrow> string list" where
  "build_outfit_prompt outfit image_mapping0 =
     (let image_mapping = or_empty image_mapping0
      in (if truthy (bo_image_url outfit) then
            (let outfit_ref = get_label image_mapping ''outfit'' ''the outfit reference image''
             in [''CRITICAL REQUIREMENT: Extract ONLY the clothing/outfit from ''
                  @ outfit_ref
                  @ ''. IGNORE any person, model, face, body, or background in ''
                  @ outfit_ref
                  @ ''. If there is a person wearing the outfit in ''
                  @ outfit_ref
                  @ '', extract ONLY the clothing items (shirt, dress, pants, jacket, etc.) and ''
                  @ ''completely ignore the person. REPLACE the model's clothing with ONLY the ''
                  @ ''extracted outfit from ''
                  @ outfit_ref
                  @ ''. Maintain the clothing design, texture, color, and details from the ''
                  @ ''extracted outfit.''])
          else if truthy (bo_text_description outfit) then
            [''Apply the following outfit as described.'']
          else [])
         @ (if truthy (bo_text_description outfit) then
              [''Outfit: ''
                 @ str_val (bo_text_description outfit)
                 @ ''.'']
            else []))"

fun item_descriptions_from :: "nat \<Rightarrow> item list \<Rightarrow> image_mapping \<Rightarrow> string list" where
  \<comment> \<open>the loop over \<open>enumerate(items)\<close>, from index \<open>idx\<close> on\<close>
  "item_descriptions_from idx [] image_mapping = []"
| "item_descriptions_from idx (item # items) image_mapping =
     (let item_type = get_str (it_type item) ''item''
      in (if truthy (it_text item) then
            [item_type
               @ '': ''
               @ str_val (it_text item)]
          else if truthy (it_image_url item) then
            (let item_ref = get_label image_mapping (''item_'' @ str_of_nat idx)
                              (''the '' @ item_type @ '' reference image'')
             in [item_type
                  @ '': extract ONLY the ''
                  @ item_type
                  @ '' from ''
                  @ item_ref
                  @ '', ignore any person/background/other elements''])
          else [])
         @ item_descriptions_from (Suc idx) items image_mapping)"

definition build_additional_items_prompt ::
  "item list \<Rightarrow> image_mapping option \<Rightarrow> string list" where
  "build_additional_items_prompt items image_mapping0 =
     (let image_mapping = or_empty image_mapping0
      in if items = [] then []
         else
           (let item_descriptions = item_descriptions_from 0 items image_mapping
            in if item_descriptions \<noteq> [] then
                 [''Additional items: ''
                   @ join ''; '' item_descriptions
                   @ ''.'']
               else []))"

definition neck_jewelry_items :: "jewelry \<Rightarrow> image_mapping \<Rightarrow> string list" where
  "neck_jewelry_items jewelry image_mapping =
     (let neck = get_location (jw_neck jewelry)
      in if enabled neck then
           (let method = get_str (jl_method neck) ''none''
            in if method = ''text_description'' \<and> truthy (jl_text neck) then
                 [''neck: ''
                   @ str_val (jl_text neck)]
               else if method = ''image_reference'' then
                 (let neck_ref = get_label image_mapping ''jewelry_neck''
                                   ''the neck jewelry reference image''
                  in [''neck: extract ONLY the jewelry from ''
                       @ neck_ref
                       @ '', ignore any person/background/other elements, apply to neck area''])
               else if method = ''text_and_image'' \<and> truthy (jl_text neck) then
                 (let neck_ref = get_label image_mapping ''jewelry_neck''
                                   ''the neck jewelry reference image''
                  in [''neck: ''
                       @ str_val (jl_text neck)
                       @ '' (extract jewelry from ''
                       @ neck_ref
                       @ '', ignore person/background)''])
               else [])
         else [])"

definition ears_jewelry_items :: "jewelry \<Rightarrow> image_mapping \<Rightarrow> string list" where
  "ears_jewelry_items jewelry image_mapping =
     (let ears = get_location (jw_ears jewelry)
      in if enabled ears then
           (let method = get_str (jl_method ears) ''none''
            in if method = ''text_description'' \<and> truthy (jl_text ears) then
                 [''ears: ''
                   @ str_val (jl_text ears)]
               else if method = ''image_reference'' then
                 (let ears_ref = get_label image_mapping ''jewelry_ears''
                                   ''the ear jewelry reference image''
                  in [''ears: extract ONLY the jewelry from ''
                       @ ears_ref
                       @ '', ignore any person/background/other elements, apply to ears''])
               else if method = ''text_and_image'' \<and> truthy (jl_text ears) then
                 (let ears_ref = get_label image_mapping ''jewelry_ears''
                                   ''the ear jewelry reference image''
                  in [''ears: ''
                       @ str_val (jl_text ears)
                       @ '' (extract jewelry from ''
                       @ ears_ref
                       @ '', ignore person/background)''])
               else [])
         else [])"

definition hands_jewelry_items :: "jewelry \<Rightarrow> image_mapping \<Rightarrow> string list" where
  "hands_jewelry_items jewelry image_mapping =
     (let hands = get_location (jw_hands_wrists jewelry)
      in if enabled hands then
           (let method = get_str (jl_method hands) ''none''
            in if method = ''text_description'' \<and> truthy (jl_text hands) then
                 [''hands/wrists: ''
                   @ str_val (jl_text hands)]
               else if method = ''image_reference'' then
                 (let hands_ref = get_label image_mapping ''jewelry_hands''
                                    ''the hand/wrist jewelry reference image''
                  in [''hands/wrists: extract ONLY the jewelry from ''
                       @ hands_ref
                       @ '', ignore any person/background/other elements, apply to hands and wrists''])
               else if method = ''text_and_image'' \<and> truthy (jl_text hands) then
                 (let hands_ref = get_label image_mapping ''jewelry_hands''
                                    ''the hand/wrist jewelry reference image''
                  in [''hands/wrists: ''
                       @ str_val (jl_text hands)
                       @ '' (extract jewelry from ''
                       @ hands_ref
                       @ '', ignore person/background)''])
               else [])
         else [])"

definition build_jewelry_prompt :: "jewelry \<Rightarrow> image_mapping option \<Rightarrow> string list" where
  "build_jewelry_prompt jewelry image_mapping0 =
     (let image_mapping = or_empty image_mapping0;
          jewelry_items = neck_jewelry_items jewelry image_mapping
                          @ ears_jewelry_items jewelry image_mapping
                          @ hands_jewelry_items jewelry image_mapping
      in if jewelry_items \<noteq> [] then
           [''Jewelry and accessories: ''
             @ join '', '' jewelry_items
             @ ''.'']
         else [])"

definition category_descriptions :: "string \<Rightarrow> string" where
  \<comment> \<open>\<open>category_descriptions.get(category, category)\<close>\<close>
  "category_descriptions category =
     (if category = ''studio'' then ''professional studio setting''
      else if category = ''indoor_lifestyle'' then ''indoor lifestyle environment''
      else if category = ''outdoor_urban'' then ''outdoor urban environment''
      else if category = ''outdoor_nature'' then ''outdoor natural environment''
      else category)"

definition build_environment_prompt ::
  "environment \<Rightarrow> image_mapping option \<Rightarrow> string list" where
  "build_environment_prompt environment image_mapping0 =
     (let image_mapping = or_empty image_mapping0;
          category = get_str (env_category environment) ''studio'';
          method = get_str (env_method environment) ''auto''
      in [''Environment: ''
           @ category_descriptions category
           @ ''.'']
         @ (if method = ''text_description'' \<and> truthy (env_text_description environment) then
              [''Background details: ''
                 @ str_val (env_text_description environment)
                 @ ''.'']
            else if method = ''reference_image'' \<and> truthy (env_image_url environment) then
              (let env_ref = get_label image_mapping ''environment''
                               ''the background/environment reference image''
               in [''CRITICAL: Extract ONLY the background/environment/scene from ''
                    @ env_ref
                    @ ''. IGNORE any person, model, face, body, clothing, or foreground elements. ''
                    @ ''Use ONLY the background, environment setting, and scene from ''
                    @ env_ref
                    @ ''.''])
            else []))"

definition photo_settings :: "photography \<Rightarrow> string list" where
  \<comment> \<open>the list \<open>photo_settings\<close> of \<open>build_photography_prompt\<close>\<close>
  "photo_settings photography =
     (if truthy (ph_aesthetic photography) then
        [''aesthetic: ''
           @ str_val (ph_aesthetic photography)]
      else [])
     @ (if truthy (ph_framing photography) then
          (let framing_desc = replace_char CHR ''_'' CHR '' '' (str_val (ph_framing photography))
           in [''framing: ''
                @ framing_desc])
        else [])
     @ (if truthy (ph_lighting photography) then
          (let lighting_desc = replace_char CHR ''_'' CHR '' '' (str_val (ph_lighting photography))
           in [''lighting: ''
                @ lighting_desc])
        else [])"

definition build_photography_prompt ::
  "photography \<Rightarrow> image_mapping option \<Rightarrow> string list" where
  "build_photography_prompt photography image_mapping0 =
     (let image_mapping = or_empty image_mapping0;
          shadows = strip (get_str (ph_shadows photography) []);
          pose = get_pose photography;
          pose_method = get_str (pose_method pose) ''auto'';
          hair = get_hair photography;
          hair_method = get_str (hair_method hair) ''auto''
      in (if photo_settings photography \<noteq> [] then
            [''Photography style: ''
               @ join '', '' (photo_settings photography)
               @ ''.'']
          else [])
         @ (if shadows \<noteq> [] \<and> shadows \<noteq> ''None - No specific shadow requirements'' then
              (let shadow_desc = (if startswith shadows ''None - ''
                                  then remove_all ''None - '' shadows else shadows)
               in [''Shadows: ''
                    @ shadow_desc
                    @ ''.''])
            else [])
         @ (if pose_method = ''text_description'' \<and> truthy (pose_text pose) then
              [''Pose: ''
                 @ str_val (pose_text pose)
                 @ ''.'']
            else if pose_method = ''reference_image'' \<and> truthy (pose_image_url pose) then
              (let strength_percent =
                     (case pose_strength_percent pose of None \<Rightarrow> 80 | Some n \<Rightarrow> n);
                   pose_ref = get_label image_mapping ''pose'' ''the pose reference image''
               in [''CRITICAL: Extract ONLY the body pose, positioning, and stance from ''
                    @ pose_ref
                    @ ''. IGNORE the face, clothing, outfit, background, and other elements. Use ''
                    @ ''ONLY the body positioning and pose from ''
                    @ pose_ref
                    @ '' with ''
                    @ str_of_int strength_percent
                    @ ''% similarity.''])
            else [])
         @ (if hair_method = ''text_description'' \<and> truthy (hair_text hair) then
              [''Hair styling: ''
                 @ str_val (hair_text hair)
                 @ ''.'']
            else if hair_method = ''reference_image'' \<and> truthy (hair_image_url hair) then
              (let hair_ref = get_label image_mapping ''hair'' ''the hairstyle reference image''
               in [''CRITICAL: Extract ONLY the hairstyle, hair texture, and hair styling from ''
                    @ hair_ref
                    @ ''. IGNORE the face features, body, clothing, background, and other ''
                    @ ''elements. Use ONLY the hairstyle and hair appearance from ''
                    @ hair_ref
                    @ ''.''])
            else if hair_method = ''keep_original'' then
              [''Keep the original hairstyle from the reference.'']
            else []))"

definition build_quality_boost :: string where
  "build_quality_boost =
     ''realistic head to body ratio, ultra-detailed, highly realistic, ''
     @ ''professional photography, 8k uhd, cinematic lighting, soft natural light, ''
     @ ''sharp focus, perfect skin texture, lifelike eyes, accurate facial ''
     @ ''proportions, ''
     @ ''volumetric depth, subtle shadows, realistic skin tones, detailed hair ''
     @ ''strands, ''
     @ ''fine pores, depth of field, masterpiece, award-winning portrait style''"

definition consistency_directive :: string where
  "consistency_directive =
     ''CRITICAL CONSISTENCY REQUIREMENT: When generating multiple images, the ''
     @ ''model's face, body figure, outfit, all clothing items, jewelry, and ''
     @ ''accessories must remain EXACTLY THE SAME across all generated images. ''
     @ ''Only camera angles, poses, lighting variations, and composition can ''
     @ ''differ between images. All core elements must be identical.''"

definition output_count :: "config \<Rightarrow> int" where
  \<comment> \<open>\<open>config.get("output", {}).get("count", 1)\<close>\<close>
  "output_count config = (case out_count (get_output config) of None \<Rightarrow> 1 | Some n \<Rightarrow> n)"

definition photoshoot_prompt_parts :: "config \<Rightarrow> image_mapping option \<Rightarrow> string list" where
  \<comment> \<open>the list \<open>parts\<close> of \<open>build_photoshoot_prompt\<close>, before it is joined\<close>
  "photoshoot_prompt_parts config image_mapping0 =
     (let image_mapping = Some (or_empty image_mapping0)
      in (if output_count config > 1 then [consistency_directive] else [])
         @ (if get_model_reference config \<noteq> empty_model_reference then
              build_model_reference_prompt (get_model_reference config) image_mapping else [])
         @ (if get_base_outfit config \<noteq> empty_base_outfit then
              build_outfit_prompt (get_base_outfit config) image_mapping else [])
         @ (if get_additional_items config \<noteq> [] then
              build_additional_items_prompt (get_additional_items config) image_mapping else [])
         @ (if get_jewelry config \<noteq> empty_jewelry then
              build_jewelry_prompt (get_jewelry config) image_mapping else [])
         @ (if get_environment config \<noteq> empty_environment then
              build_environment_prompt (get_environment config) image_mapping else [])
         @ (if get_photography config \<noteq> empty_photography then
              build_photography_prompt (get_photography config) image_mapping else [])
         @ [build_quality_boost])"

definition build_photoshoot_prompt :: "config \<Rightarrow> image_mapping option \<Rightarrow> string" where
  "build_photoshoot_prompt config image_mapping0 =
     join '' '' (photoshoot_prompt_parts config image_mapping0)"

section \<open>Image parts (gemini_client.py)\<close>

text \<open>
  \<open>url_to_base64\<close> fetches over the network; it is a parameter \<open>fetch\<close> of the
  model, \<open>None\<close> standing for any exception it raises.
\<close>

type_synonym fetcher = "string \<Rightarrow> string option"

type_synonym assembly = "part list \<times> image_mapping"

definition add_image_part :: "fetcher \<Rightarrow> part list \<Rightarrow> string \<Rightarrow> part list" where
  "add_image_part fetch parts image_url =
     (if image_url \<noteq> [] then
        (case fetch image_url of
           Some base64_data \<Rightarrow> parts @ [InlineData ''image/jpeg'' base64_data]
         | None \<Rightarrow> parts)
      else parts)"

definition add_reference ::
  "fetcher \<Rightarrow> string \<Rightarrow> string \<Rightarrow> string \<Rightarrow> string \<Rightarrow> assembly \<Rightarrow> assembly" where
  \<comment> \<open>the three statements of every section: append the text part, add the image part,
      register the label\<close>
  "add_reference fetch text image_url label description st =
     (case st of (parts, image_mapping) \<Rightarrow>
        (add_image_part fetch (parts @ [Text text]) image_url,
         image_mapping(label \<mapsto> description)))"

definition add_model_reference :: "fetcher \<Rightarrow> config \<Rightarrow> assembly \<Rightarrow> assembly" where
  "add_model_reference fetch config st =
     (let model_ref = get_model_reference config
      in if truthy (mr_image_url model_ref) then
           add_reference fetch
             (''REFERENCE IMAGE 1 - MODEL: This image shows the model reference. Use the ''
               @ ''model's face and appearance from this image.'')
             (str_val (mr_image_url model_ref)) ''model_ref''
             ''the model reference image (Image 1)'' st
         else st)"

definition add_base_outfit :: "fetcher \<Rightarrow> config \<Rightarrow> assembly \<Rightarrow> assembly" where
  "add_base_outfit fetch config st =
     (let outfit = get_base_outfit config
      in if truthy (bo_image_url outfit) then
           add_reference fetch
             (''REFERENCE IMAGE - OUTFIT: This image shows the outfit/clothing to be ''
               @ ''worn. REPLACE the model's clothing with the outfit from this image.'')
             (str_val (bo_image_url outfit)) ''outfit''
             ''the outfit image (which replaces the model's clothing)'' st
         else st)"

fun add_items_from :: "fetcher \<Rightarrow> nat \<Rightarrow> item list \<Rightarrow> assembly \<Rightarrow> assembly" where
  \<comment> \<open>the loop over \<open>enumerate(additional_items)\<close>, from index \<open>idx\<close> on\<close>
  "add_items_from fetch idx [] st = st"
| "add_items_from fetch idx (item # items) st =
     add_items_from fetch (Suc idx) items
       (if truthy (it_image_url item) then
          (let item_type = get_str (it_type item) ''item''
           in add_reference fetch
                (''REFERENCE IMAGE - ADDITIONAL ITEM (''
                  @ upper item_type
                  @ ''): This image shows a ''
                  @ item_type
                  @ '' to add to the outfit.'')
                (str_val (it_image_url item)) (''item_'' @ str_of_nat idx)
                (''the ''
                  @ item_type
                  @ '' reference image'') st)
        else st)"

definition add_additional_items :: "fetcher \<Rightarrow> config \<Rightarrow> assembly \<Rightarrow> assembly" where
  "add_additional_items fetch config st =
     add_items_from fetch 0 (get_additional_items config) st"

definition add_neck_jewelry :: "fetcher \<Rightarrow> config \<Rightarrow> assembly \<Rightarrow> assembly" where
  "add_neck_jewelry fetch config st =
     (let neck = get_location (jw_neck (get_jewelry config))
      in if enabled neck \<and> truthy (jl_image_url neck) then
           add_reference fetch
             (''REFERENCE IMAGE - NECK JEWELRY: This image shows the necklace/jewelry to ''
               @ ''wear around the neck. Apply this jewelry to the neck area.'')
             (str_val (jl_image_url neck)) ''jewelry_neck''
             ''the neck jewelry reference image'' st
         else st)"

definition add_ears_jewelry :: "fetcher \<Rightarrow> config \<Rightarrow> assembly \<Rightarrow> assembly" where
  "add_ears_jewelry fetch config st =
     (let ears = get_location (jw_ears (get_jewelry config))
      in if enabled ears \<and> truthy (jl_image_url ears) then
           add_reference fetch
             (''REFERENCE IMAGE - EAR JEWELRY: This image shows the earrings/jewelry to ''
               @ ''wear on the ears. Apply this jewelry to the ears.'')
             (str_val (jl_image_url ears)) ''jewelry_ears''
             ''the ear jewelry reference image'' st
         else st)"

definition add_hands_jewelry :: "fetcher \<Rightarrow> config \<Rightarrow> assembly \<Rightarrow> assembly" where
  "add_hands_jewelry fetch config st =
     (let hands = get_location (jw_hands_wrists (get_jewelry config))
      in if enabled hands \<and> truthy (jl_image_url hands) then
           add_reference fetch
             (''REFERENCE IMAGE - HAND/WRIST JEWELRY: This image shows the ''
               @ ''rings/bracelets to wear on hands and wrists. Apply this jewelry to the ''
               @ ''hands and wrists.'')
             (str_val (jl_image_url hands)) ''jewelry_hands''
             ''the hand/wrist jewelry reference image'' st
         else st)"

definition add_environment :: "fetcher \<Rightarrow> config \<Rightarrow> assembly \<Rightarrow> assembly" where
  "add_environment fetch config st =
     (let environment = get_environment config
      in if truthy (env_image_url environment) then
           add_reference fetch
             (''REFERENCE IMAGE - BACKGROUND: This image shows the background/environment ''
               @ ''to use for the photoshoot.'')
             (str_val (env_image_url environment)) ''environment''
             ''the background/environment reference image'' st
         else st)"

definition add_pose :: "fetcher \<Rightarrow> config \<Rightarrow> assembly \<Rightarrow> assembly" where
  "add_pose fetch config st =
     (let pose = get_pose (get_photography config)
      in if truthy (pose_image_url pose) then
           add_reference fetch
             (''REFERENCE IMAGE - POSE: This image shows the pose to mimic. Use the pose ''
               @ ''and body positioning from this image.'')
             (str_val (pose_image_url pose)) ''pose''
             ''the pose reference image'' st
         else st)"

definition add_hair :: "fetcher \<Rightarrow> config \<Rightarrow> assembly \<Rightarrow> assembly" where
  "add_hair fetch config st =
     (let hair = get_hair (get_photography config)
      in if truthy (hair_image_url hair) then
           add_reference fetch
             (''REFERENCE IMAGE - HAIRSTYLE: This image shows the hairstyle to apply. Use ''
               @ ''the hairstyle from this image.'')
             (str_val (hair_image_url hair)) ''hair''
             ''the hairstyle reference image'' st
         else st)"

definition prepare_image_parts :: "fetcher \<Rightarrow> config \<Rightarrow> assembly" where
  \<comment> \<open>the blocks of the function body, in the order they are written\<close>
  "prepare_image_parts fetch config =
     (let st = ([], Map.empty);
          st = add_model_reference fetch config st;
          st = add_base_outfit fetch config st;
          st = add_additional_items fetch config st;
          st = add_neck_jewelry fetch config st;
          st = add_ears_jewelry fetch config st;
          st = add_hands_jewelry fetch config st;
          st = add_environment fetch config st;
          st = add_pose fetch config st;
          st = add_hair fetch config st
      in st)"

section \<open>The generation run (app.py)\<close>

datatype run_error = KeyError string | Stopped string

record run =
  run_image_parts :: "part list"
  run_image_mapping :: image_mapping
  run_prompt :: string
  run_aspect_ratio :: string
  run_requests :: "part list list"

definition has_model_ref :: "model_reference \<Rightarrow> bool" where
  "has_model_ref model_ref =
     (truthy (mr_text_description model_ref) \<or> truthy (mr_image_url model_ref))"

definition has_outfit :: "base_outfit \<Rightarrow> bool" where
  "has_outfit outfit = (truthy (bo_text_description outfit) \<or> truthy (bo_image_url outfit))"

definition generate_clicked :: "fetcher \<Rightarrow> config \<Rightarrow> run_error + run" where
  \<comment> \<open>The handler of the generate button, up to the requests it sends, one for each
      output; \<open>config[k]\<close> raises \<open>KeyError\<close> on an absent key, and \<open>st.error\<close>
      followed by \<open>st.stop\<close> ends the run.\<close>
  "generate_clicked fetch config =
     (case lookup config ''model_reference'' of
        Some (ModelReference model_ref) \<Rightarrow>
          (if mr_text_description model_ref = None then Inl (KeyError ''text_description'')
           else if \<not> truthy (mr_text_description model_ref) \<and> mr_image_url model_ref = None
             then Inl (KeyError ''image_url'')
           else
             (case lookup config ''base_outfit'' of
                Some (BaseOutfit outfit) \<Rightarrow>
                  (if bo_text_description outfit = None then Inl (KeyError ''text_description'')
                   else if \<not> truthy (bo_text_description outfit) \<and> bo_image_url outfit = None
                     then Inl (KeyError ''image_url'')
                   else if \<not> has_model_ref model_ref \<and> \<not> has_outfit outfit then
                     Inl (Stopped (''Please provide at least a model reference or outfit reference to generate.''))
                   else
                     (case prepare_image_parts fetch config of (image_parts, image_mapping) \<Rightarrow>
                        (let prompt = build_photoshoot_prompt config (Some image_mapping)
                         in case lookup config ''meta'' of
                              Some (Meta meta) \<Rightarrow>
                                (case meta_platform_preset meta of
                                   None \<Rightarrow> Inl (KeyError ''platform_preset'')
                                 | Some preset \<Rightarrow>
                                     (let aspect_ratio = map_platform_preset_to_aspect_ratio preset
                                      in case lookup config ''output'' of
                                           Some (Output out) \<Rightarrow>
                                             (case out_count out of
                                                None \<Rightarrow> Inl (KeyError ''count'')
                                              | Some image_count \<Rightarrow>
                                                  (if out_batch_variety out = None then
                                                     Inl (KeyError ''batch_variety'')
                                                   else
                                                     Inr \<lparr>run_image_parts = image_parts,
                                                          run_image_mapping = image_mapping,
                                                          run_prompt = prompt,
                                                          run_aspect_ratio = aspect_ratio,
                                                          run_requests =
                                                            map (\<lambda>i. request_parts prompt image_parts
                                                                        (Some (int i)) (out_batch_variety out))
                                                              [0 ..< nat image_count]\<rparr>))
                                         | _ \<Rightarrow> Inl (KeyError ''output'')))
                            | _ \<Rightarrow> Inl (KeyError ''meta''))))
              | _ \<Rightarrow> Inl (KeyError ''base_outfit'')))
      | _ \<Rightarrow> Inl (KeyError ''model_reference''))"

section \<open>Reading an assembly\<close>

text \<open>
  What follows is not in the source: it names what the properties below speak about. A
  part is a text part or an inline image part; the contribution of a block of
  \<open>prepare_image_parts\<close> is what it appends when it starts from nothing; the labelled
  references of a configuration are the label and the image reference of every section
  whose guard holds, the sections taken in the order of the specification: model
  reference, base outfit, additional items in the order of their list, neck, ear and hand
  jewelry, environment, pose, hair. The text part of a section is told by its heading.
\<close>

datatype part_kind = TextPart | InlineImagePart

fun kind :: "part \<Rightarrow> part_kind" where
  "kind (Text _) = TextPart"
| "kind (InlineData _ _) = InlineImagePart"

definition contribution :: "(assembly \<Rightarrow> assembly) \<Rightarrow> part list" where
  "contribution block = fst (block ([], Map.empty))"

definition label_kinds :: "fetcher \<Rightarrow> string \<times> string \<Rightarrow> part_kind list" where
  \<comment> \<open>one text part, then one inline image part unless the fetch fails\<close>
  "label_kinds fetch r =
     TextPart # (case fetch (snd r) of None \<Rightarrow> [] | Some _ \<Rightarrow> [InlineImagePart])"

definition model_reference_labels :: "config \<Rightarrow> (string \<times> string) list" where
  "model_reference_labels config =
     (let model_ref = get_model_reference config
      in if truthy (mr_image_url model_ref)
         then [(''model_ref'', str_val (mr_image_url model_ref))] else [])"

definition base_outfit_labels :: "config \<Rightarrow> (string \<times> string) list" where
  "base_outfit_labels config =
     (let outfit = get_base_outfit config
      in if truthy (bo_image_url outfit)
         then [(''outfit'', str_val (bo_image_url outfit))] else [])"

fun item_labels_from :: "nat \<Rightarrow> item list \<Rightarrow> (string \<times> string) list" where
  "item_labels_from idx [] = []"
| "item_labels_from idx (item # items) =
     (if truthy (it_image_url item)
      then [(''item_'' @ str_of_nat idx, str_val (it_image_url item))] else [])
     @ item_labels_from (Suc idx) items"

definition additional_items_labels :: "config \<Rightarrow> (string \<times> string) list" where
  "additional_items_labels config = item_labels_from 0 (get_additional_items config)"

definition location_labels :: "string \<Rightarrow> jewelry_location \<Rightarrow> (string \<times> string) list" where
  "location_labels label loc =
     (if enabled loc \<and> truthy (jl_image_url loc)
      then [(label, str_val (jl_image_url loc))] else [])"

definition jewelry_labels :: "config \<Rightarrow> (string \<times> string) list" where
  "jewelry_labels config =
     location_labels ''jewelry_neck'' (get_location (jw_neck (get_jewelry config)))
     @ location_labels ''jewelry_ears'' (get_location (jw_ears (get_jewelry config)))
     @ location_labels ''jewelry_hands'' (get_location (jw_hands_wrists (get_jewelry config)))"

definition environment_labels :: "config \<Rightarrow> (string \<times> string) list" where
  "environment_labels config =
     (let environment = get_environment config
      in if truthy (env_image_url environment)
         then [(''environment'', str_val (env_image_url environment))] else [])"

definition pose_labels :: "config \<Rightarrow> (string \<times> string) list" where
  "pose_labels config =
     (let pose = get_pose (get_photography config)
      in if truthy (pose_image_url pose)
         then [(''pose'', str_val (pose_image_url pose))] else [])"

definition hair_labels :: "config \<Rightarrow> (string \<times> string) list" where
  "hair_labels config =
     (let hair = get_hair (get_photography config)
      in if truthy (hair_image_url hair)
         then [(''hair'', str_val (hair_image_url hair))] else [])"

definition labelled_references :: "config \<Rightarrow> (string \<times> string) list" where
  "labelled_references config =
     model_reference_labels config @ base_outfit_labels config
     @ additional_items_labels config @ jewelry_labels config
     @ environment_labels config @ pose_labels config @ hair_labels config"

definition section_order :: "nat \<Rightarrow> string list" where
  \<comment> \<open>the labels of all sections in the fixed order, for a list of \<open>n\<close> additional items\<close>
  "section_order n =
     [''model_ref'', ''outfit'']
     @ map (\<lambda>i. ''item_'' @ str_of_nat i) [0..<n]
     @ [''jewelry_neck'', ''jewelry_ears'', ''jewelry_hands'', ''environment'', ''pose'', ''hair'']"

definition heading :: "string \<Rightarrow> string" where
  \<comment> \<open>how the text part of the section with this label begins\<close>
  "heading label =
     (if label = ''model_ref'' then ''REFERENCE IMAGE 1 - MODEL:''
      else if label = ''outfit'' then ''REFERENCE IMAGE - OUTFIT:''
      else if label = ''jewelry_neck'' then ''REFERENCE IMAGE - NECK JEWELRY:''
      else if label = ''jewelry_ears'' then ''REFERENCE IMAGE - EAR JEWELRY:''
      else if label = ''jewelry_hands'' then ''REFERENCE IMAGE - HAND/WRIST JEWELRY:''
      else if label = ''environment'' then ''REFERENCE IMAGE - BACKGROUND:''
      else if label = ''pose'' then ''REFERENCE IMAGE - POSE:''
      else if label = ''hair'' then ''REFERENCE IMAGE - HAIRSTYLE:''
      else ''REFERENCE IMAGE - ADDITIONAL ITEM ('')"

fun texts :: "part list \<Rightarrow> string list" where
  \<comment> \<open>the text parts of a sequence, in their order\<close>
  "texts [] = []"
| "texts (Text t # parts) = t # texts parts"
| "texts (InlineData _ _ # parts) = texts parts"

fun images :: "part list \<Rightarrow> string list" where
  \<comment> \<open>the data of the inline image parts of a sequence, in their order\<close>
  "images [] = []"
| "images (Text _ # parts) = images parts"
| "images (InlineData _ base64_data # parts) = base64_data # images parts"

definition fetched :: "fetcher \<Rightarrow> string \<times> string \<Rightarrow> string list" where
  \<comment> \<open>the data of a labelled reference, if it can be fetched\<close>
  "fetched fetch r = (case fetch (snd r) of None \<Rightarrow> [] | Some base64_data \<Rightarrow> [base64_data])"

section \<open>Example configurations\<close>

definition failing_fetch :: fetcher where
  \<comment> \<open>every fetch raises\<close>
  "failing_fetch url = None"

definition constant_fetch :: fetcher where
  \<comment> \<open>every fetch succeeds\<close>
  "constant_fetch url = Some ''QUJD''"

definition blank_location :: jewelry_location where
  \<comment> \<open>a jewelry location as the application writes it when nothing was entered\<close>
  "blank_location =
     \<lparr>jl_enabled = Some False, jl_method = Some (determine_method (Some []) (Some []) ''none''),
      jl_text = Some [], jl_image_url = Some []\<rparr>"

definition blank_jewelry :: jewelry where
  "blank_jewelry =
     \<lparr>jw_neck = Some blank_location, jw_ears = Some blank_location,
      jw_hands_wrists = Some blank_location\<rparr>"

definition blank_model_reference :: model_reference where
  "blank_model_reference =
     \<lparr>mr_method = Some (determine_method (Some []) (Some []) ''text_description''),
      mr_text_description = Some [], mr_image_url = Some [], mr_face_action = Some ''keep'',
      mr_new_model_description = None, mr_ethnicity = Some [], mr_hair_color = Some [],
      mr_age = Some []\<rparr>"

definition blank_environment :: environment where
  "blank_environment =
     \<lparr>env_category = Some ''studio'',
      env_method = Some (determine_method (Some []) (Some []) ''auto''),
      env_text_description = Some [], env_image_url = Some []\<rparr>"

definition blank_photography :: photography where
  "blank_photography =
     \<lparr>ph_aesthetic = Some ''editorial'', ph_framing = Some ''full_body'',
      ph_lighting = Some ''soft_warm'', ph_shadows = None,
      ph_pose = Some \<lparr>pose_method = Some (determine_method (Some []) (Some []) ''auto''),
                       pose_text = Some [], pose_image_url = Some [],
                       pose_strength_percent = Some 80\<rparr>,
      ph_hair = Some \<lparr>hair_method = Some (determine_method (Some []) (Some []) ''auto''),
                       hair_text = Some [], hair_image_url = Some []\<rparr>\<rparr>"

definition red_silk_dress_outfit :: base_outfit where
  "red_silk_dress_outfit =
     \<lparr>bo_method = Some (determine_method (Some ''red silk dress'') (Some []) ''text_description''),
      bo_text_description = Some ''red silk dress'', bo_image_url = Some [],
      bo_preservation_level = Some ''strict'', bo_garments_to_preserve = Some []\<rparr>"

definition red_silk_dress_config :: config where
  \<comment> \<open>only the outfit text is filled in; one output\<close>
  "red_silk_dress_config =
     [Meta \<lparr>meta_job_id = Some ''job_0a1b2c3d'', meta_client_id = Some ''photoshoot_app'',
            meta_platform_preset = Some ''instagram_portrait''\<rparr>,
      ModelReference blank_model_reference,
      BaseOutfit red_silk_dress_outfit,
      AdditionalItems [],
      Jewelry blank_jewelry,
      Environment blank_environment,
      Photography blank_photography,
      Output \<lparr>out_count = Some 1, out_batch_variety = Some ''subtle_variations''\<rparr>]"

definition background_image_environment :: environment where
  \<comment> \<open>only the background image is filled in; the method is the resolver's\<close>
  "background_image_environment =
     \<lparr>env_category = Some ''studio'',
      env_method = Some (determine_method (Some []) (Some ''https://bucket/background.jpg'') ''auto''),
      env_text_description = Some [],
      env_image_url = Some ''https://bucket/background.jpg''\<rparr>"

definition reference_images_photography :: photography where
  \<comment> \<open>pose and hair given by an image only; the methods are the resolver's\<close>
  "reference_images_photography =
     \<lparr>ph_aesthetic = Some ''editorial'', ph_framing = Some ''full_body'',
      ph_lighting = Some ''soft_warm'', ph_shadows = None,
      ph_pose = Some \<lparr>pose_method =
                         Some (determine_method (Some []) (Some ''https://bucket/pose.jpg'') ''auto''),
                       pose_text = Some [], pose_image_url = Some ''https://bucket/pose.jpg'',
                       pose_strength_percent = Some 80\<rparr>,
      ph_hair = Some \<lparr>hair_method =
                         Some (determine_method (Some []) (Some ''https://bucket/hair.jpg'') ''auto''),
                       hair_text = Some [], hair_image_url = Some ''https://bucket/hair.jpg''\<rparr>\<rparr>"

definition gold_chain_location :: jewelry_location where
  \<comment> \<open>neck jewelry with a text and an image; the method is the resolver's\<close>
  "gold_chain_location =
     \<lparr>jl_enabled = Some True,
      jl_method = Some (determine_method (Some ''thin gold chain'')
                          (Some ''https://bucket/necklace.jpg'') ''none''),
      jl_text = Some ''thin gold chain'',
      jl_image_url = Some ''https://bucket/necklace.jpg''\<rparr>"

definition gold_chain_jewelry :: jewelry where
  "gold_chain_jewelry =
     \<lparr>jw_neck = Some gold_chain_location, jw_ears = Some blank_location,
      jw_hands_wrists = Some blank_location\<rparr>"

definition blank_outfit :: base_outfit where
  "blank_outfit =
     \<lparr>bo_method = Some (determine_method (Some []) (Some []) ''text_description''),
      bo_text_description = Some [], bo_image_url = Some [],
      bo_preservation_level = Some ''strict'', bo_garments_to_preserve = Some []\<rparr>"

definition nothing_entered_config :: config where
  \<comment> \<open>the form as it is before anything is filled in\<close>
  "nothing_entered_config =
     [Meta \<lparr>meta_job_id = Some ''job_4e5f6a7b'', meta_client_id = Some ''photoshoot_app'',
            meta_platform_preset = Some ''instagram_portrait''\<rparr>,
      ModelReference blank_model_reference,
      BaseOutfit blank_outfit,
      AdditionalItems [],
      Jewelry blank_jewelry,
      Environment blank_environment,
      Photography blank_photography,
      Output \<lparr>out_count = Some 2, out_batch_variety = Some ''subtle_variations''\<rparr>]"

definition red_silk_dress_config_again :: config where
  \<comment> \<open>the same sections, filled in another order, under another job identifier\<close>
  "red_silk_dress_config_again =
     [Output \<lparr>out_count = Some 1, out_batch_variety = Some ''subtle_variations''\<rparr>,
      Photography blank_photography,
      BaseOutfit red_silk_dress_outfit,
      Meta \<lparr>meta_job_id = Some ''job_9f8e7d6c'', meta_client_id = Some ''photoshoot_app'',
            meta_platform_preset = Some ''instagram_portrait''\<rparr>,
      Environment blank_environment,
      Jewelry blank_jewelry,
      ModelReference blank_model_reference,
      AdditionalItems []]"

definition styled_config :: config where
  \<comment> \<open>every section with an image reference; the second item has a text only\<close>
  "styled_config =
     [Meta \<lparr>meta_job_id = Some ''job_11aa22bb'', meta_client_id = Some ''photoshoot_app'',
            meta_platform_preset = Some ''instagram_story''\<rparr>,
      ModelReference (blank_model_reference\<lparr>mr_image_url := Some ''https://bucket/model.jpg''\<rparr>),
      BaseOutfit (blank_outfit\<lparr>bo_image_url := Some ''https://bucket/outfit.jpg''\<rparr>),
      AdditionalItems
        [\<lparr>it_type = Some ''jacket'', it_text = Some [],
          it_image_url = Some ''https://bucket/jacket.jpg''\<rparr>,
         \<lparr>it_type = Some ''hat'', it_text = Some ''straw hat'', it_image_url = Some []\<rparr>,
         \<lparr>it_type = Some ''bag'', it_text = Some [],
          it_image_url = Some ''https://bucket/bag.jpg''\<rparr>],
      Jewelry (blank_jewelry\<lparr>jw_neck := Some gold_chain_location\<rparr>),
      Environment background_image_environment,
      Photography reference_images_photography,
      Output \<lparr>out_count = Some 3, out_batch_variety = Some ''dynamic_angles''\<rparr>]"

definition styled_config_again :: config where
  \<comment> \<open>the same entries, inserted in another order\<close>
  "styled_config_again =
     [Photography reference_images_photography,
      Environment background_image_environment,
      Output \<lparr>out_count = Some 3, out_batch_variety = Some ''dynamic_angles''\<rparr>,
      Jewelry (blank_jewelry\<lparr>jw_neck := Some gold_chain_location\<rparr>),
      AdditionalItems
        [\<lparr>it_type = Some ''jacket'', it_text = Some [],
          it_image_url = Some ''https://bucket/jacket.jpg''\<rparr>,
         \<lparr>it_type = Some ''hat'', it_text = Some ''straw hat'', it_image_url = Some []\<rparr>,
         \<lparr>it_type = Some ''bag'', it_text = Some [],
          it_image_url = Some ''https://bucket/bag.jpg''\<rparr>],
      BaseOutfit (blank_outfit\<lparr>bo_image_url := Some ''https://bucket/outfit.jpg''\<rparr>),
      ModelReference (blank_model_reference\<lparr>mr_image_url := Some ''https://bucket/model.jpg''\<rparr>),
      Meta \<lparr>meta_job_id = Some ''job_11aa22bb'', meta_client_id = Some ''photoshoot_app'',
            meta_platform_preset = Some ''instagram_story''\<rparr>]"

definition model_image_config :: config where
  \<comment> \<open>the model given by an image only, the outfit by a text only; three outputs\<close>
  "model_image_config =
     [Meta \<lparr>meta_job_id = Some ''job_33cc44dd'', meta_client_id = Some ''photoshoot_app'',
            meta_platform_preset = Some ''instagram_portrait''\<rparr>,
      ModelReference (blank_model_reference\<lparr>mr_image_url := Some ''https://bucket/model.jpg''\<rparr>),
      BaseOutfit red_silk_dress_outfit,
      AdditionalItems [],
      Jewelry blank_jewelry,
      Environment blank_environment,
      Photography blank_photography,
      Output \<lparr>out_count = Some 3, out_batch_variety = Some ''dynamic_angles''\<rparr>]"

definition model_image_config_single :: config where
  \<comment> \<open>the same sections, for a single output\<close>
  "model_image_config_single =
     [Meta \<lparr>meta_job_id = Some ''job_55ee66ff'', meta_client_id = Some ''photoshoot_app'',
            meta_platform_preset = Some ''instagram_portrait''\<rparr>,
      ModelReference (blank_model_reference\<lparr>mr_image_url := Some ''https://bucket/model.jpg''\<rparr>),
      BaseOutfit red_silk_dress_outfit,
      AdditionalItems [],
      Jewelry blank_jewelry,
      Environment blank_environment,
      Photography blank_photography,
      Output \<lparr>out_count = Some 1, out_batch_variety = Some ''dynamic_angles''\<rparr>]"

definition selective_fetch :: fetcher where
  \<comment> \<open>the pose image cannot be fetched; every other image is its own address\<close>
  "selective_fetch url = (if url = ''https://bucket/pose.jpg'' then None else Some url)"

section \<open>Properties\<close>

subsection \<open>Method resolution\<close>

lemma strip_empty_iff: "strip s = [] \<longleftrightarrow> filter (\<lambda>c. \<not> isspace c) s = []"
proof -
  have "strip s = [] \<longleftrightarrow> dropWhile isspace s = []"
  proof (cases "dropWhile isspace s = []")
    case True
    show ?thesis unfolding strip_def True by simp
  next
    case False
    then have "\<not> isspace (hd (dropWhile isspace s))"
      by (rule hd_dropWhile)
    moreover have "hd (dropWhile isspace s) \<in> set (dropWhile isspace s)"
      using False by (rule hd_in_set)
    ultimately have "\<not> (\<forall>x\<in>set (dropWhile isspace s). isspace x)"
      by blast
    then have "strip s \<noteq> []"
      unfolding strip_def by (simp add: dropWhile_eq_Nil_conv)
    with False show ?thesis by blast
  qed
  also have "\<dots> \<longleftrightarrow> filter (\<lambda>c. \<not> isspace c) s = []"
    by (simp add: dropWhile_eq_Nil_conv filter_empty_conv)
  finally show ?thesis .
qed

lemma has_content_present: "has_content v = present v"
  by (cases v) (auto simp: has_content_def present_def strip_empty_iff)

text \<open>
  C4. The Method Resolver is total and follows the precedence table: text and image both
  present (non-empty after stripping white space) give \<open>text_and_image\<close>, text only gives
  \<open>text_description\<close>, image only gives \<open>image_reference\<close>, neither gives the default.
\<close>

theorem determine_method_table:
  "determine_method text image_url dflt = resolve (present text) (present image_url) dflt"
  by (cases "present text"; cases "present image_url")
     (simp_all add: determine_method_def has_content_present)

theorem determine_method_table_witness:
  "determine_method (Some ''  red silk dress '') (Some '' '') ''auto'' = ''text_description''
   \<and> determine_method (Some '' '') (Some ''https://bucket/ref.jpg'') ''none'' = ''image_reference''
   \<and> determine_method None (Some []) ''auto'' = ''auto''"
  using determine_method_table [of "Some ''  red silk dress ''" "Some '' ''" "''auto''"]
        determine_method_table [of "Some '' ''" "Some ''https://bucket/ref.jpg''" "''none''"]
        determine_method_table [of None "Some []" "''auto''"]
  by (simp add: present_def isspace_def)

subsection \<open>Batch variation\<close>

text \<open>
  C6. For every base prompt and every batch index \<open>i \<ge> 0\<close> the per-call prompt is the
  phrase at position \<open>i mod L\<close> of the mode's fixed list (10 phrases for
  \<open>dynamic_angles\<close>, 5 for \<open>subtle_variations\<close>), then a period and a space, then the
  base prompt.
\<close>

theorem final_prompt_variation:
  "final_prompt p (Some (int i)) (Some ''dynamic_angles'')
     = dynamic_angles_variations ! (i mod 10) @ ''. '' @ p
   \<and> final_prompt p (Some (int i)) (Some ''subtle_variations'')
     = subtle_variations ! (i mod 5) @ ''. '' @ p
   \<and> length dynamic_angles_variations = 10 \<and> length subtle_variations = 5"
proof -
  have d: "length dynamic_angles_variations = 10"
    by (simp add: dynamic_angles_variations_def)
  have s: "length subtle_variations = 5"
    by (simp add: subtle_variations_def)
  have "nat (int i mod 10) = i mod 10" "nat (int i mod 5) = i mod 5"
    by (simp_all add: nat_mod_distrib)
  then show ?thesis
    by (simp add: final_prompt_def d s)
qed

theorem final_prompt_variation_witness:
  "final_prompt ''A portrait.'' (Some 12) (Some ''dynamic_angles'')
     = ''Alternative composition. A portrait.''
   \<and> final_prompt ''A portrait.'' (Some 12) (Some ''subtle_variations'')
     = ''Subtle lighting change. A portrait.''"
  using final_prompt_variation [of "''A portrait.''" 12]
  by (simp add: dynamic_angles_variations_def subtle_variations_def)

text \<open>
  C10. Without a batch index, or with a variety that is neither \<open>dynamic_angles\<close> nor
  \<open>subtle_variations\<close> (possibly none at all), the request carries exactly the base
  prompt as its first part.
\<close>

theorem final_prompt_unchanged:
  assumes "batch_index = None
           \<or> (batch_variety \<noteq> Some ''dynamic_angles'' \<and> batch_variety \<noteq> Some ''subtle_variations'')"
  shows "final_prompt p batch_index batch_variety = p
         \<and> request_parts p image_parts batch_index batch_variety = Text p # image_parts"
  using assms by (auto simp: final_prompt_def request_parts_def)

theorem final_prompt_unchanged_witness:
  "final_prompt ''A portrait.'' None (Some ''dynamic_angles'') = ''A portrait.''
   \<and> final_prompt ''A portrait.'' (Some 3) None = ''A portrait.''
   \<and> request_parts ''A portrait.'' [] (Some 3) (Some ''static'') = [Text ''A portrait.'']"
  using final_prompt_unchanged [of None "Some ''dynamic_angles''" "''A portrait.''" "[]"]
        final_prompt_unchanged [of "Some 3" None "''A portrait.''" "[]"]
        final_prompt_unchanged [of "Some 3" "Some ''static''" "''A portrait.''" "[]"]
  by simp

subsection \<open>Extraction directives\<close>

lemma determine_method_values:
  "determine_method text image_url dflt
     \<in> {''text_and_image'', ''text_description'', ''image_reference'', dflt}"
  by (simp add: determine_method_def Let_def)

text \<open>
  C3. With only an image given, the Method Resolver answers \<open>image_reference\<close>, but the
  environment, pose and hair builders test for \<open>reference_image\<close>: no extraction
  directive is emitted for the background, the pose or the hairstyle.
\<close>

theorem image_reference_directive_missing:
  "build_environment_prompt background_image_environment image_mapping
     = [''Environment: professional studio setting.'']
   \<and> build_photography_prompt reference_images_photography image_mapping
     = [''Photography style: aesthetic: editorial, framing: full body, lighting: soft warm.'']"
  by (simp add: build_environment_prompt_def background_image_environment_def
      build_photography_prompt_def photo_settings_def reference_images_photography_def
      determine_method_def has_content_def strip_def isspace_def Let_def get_str_def
      truthy_def str_val_def category_descriptions_def replace_char_def get_pose_def
      get_hair_def)

subsection \<open>Joined fragments\<close>

lemma join_Cons: "join sep (x # xs) = x @ (if xs = [] then [] else sep @ join sep xs)"
  by (cases xs) simp_all

lemma join_append:
  "join sep (xs @ ys) =
     (if xs = [] then join sep ys
      else if ys = [] then join sep xs
      else join sep xs @ sep @ join sep ys)"
  by (induction sep xs rule: join.induct) (simp_all add: join_Cons)

lemma join_contains:
  "join sep (xs @ [x] @ ys) =
     (if xs = [] then [] else join sep xs @ sep) @ x @ (if ys = [] then [] else sep @ join sep ys)"
  by (simp add: join_append join_Cons)

subsection \<open>Jewelry\<close>

lemma build_jewelry_prompt_contains:
  assumes eq: "neck_jewelry_items jewelry (or_empty image_mapping)
               @ ears_jewelry_items jewelry (or_empty image_mapping)
               @ hands_jewelry_items jewelry (or_empty image_mapping) = xs @ [x] @ ys"
  shows "build_jewelry_prompt jewelry image_mapping =
           [''Jewelry and accessories: ''
            @ (if xs = [] then [] else join '', '' xs @ '', '') @ x
            @ (if ys = [] then [] else '', '' @ join '', '' ys) @ ''.'']"
proof -
  have "join '', '' (xs @ [x] @ ys) =
      (if xs = [] then [] else join '', '' xs @ '', '') @ x
      @ (if ys = [] then [] else '', '' @ join '', '' ys)"
    by (rule join_contains)
  moreover have "xs @ [x] @ ys \<noteq> []"
    by simp
  ultimately show ?thesis
    unfolding build_jewelry_prompt_def Let_def eq by simp
qed

text \<open>
  C8. An enabled jewelry location with method \<open>text_and_image\<close> and a non-empty text
  contributes its text together with an extraction directive that names the label of that
  location's own image (the entry of the mapping under \<open>jewelry_neck\<close>,
  \<open>jewelry_ears\<close> or \<open>jewelry_hands\<close>, and the location's own description when the
  mapping has none); the contribution is part of the single jewelry fragment.
\<close>

theorem jewelry_text_and_image_directive:
  assumes "enabled loc" and "jl_method loc = Some ''text_and_image''" and "truthy (jl_text loc)"
  shows
    "(jw_neck jewelry = Some loc \<longrightarrow>
        (\<exists>before after. build_jewelry_prompt jewelry image_mapping =
           [''Jewelry and accessories: '' @ before
            @ ''neck: '' @ str_val (jl_text loc) @ '' (extract jewelry from ''
            @ get_label (or_empty image_mapping) ''jewelry_neck''
                ''the neck jewelry reference image''
            @ '', ignore person/background)'' @ after @ ''.'']))
     \<and> (jw_ears jewelry = Some loc \<longrightarrow>
        (\<exists>before after. build_jewelry_prompt jewelry image_mapping =
           [''Jewelry and accessories: '' @ before
            @ ''ears: '' @ str_val (jl_text loc) @ '' (extract jewelry from ''
            @ get_label (or_empty image_mapping) ''jewelry_ears''
                ''the ear jewelry reference image''
            @ '', ignore person/background)'' @ after @ ''.'']))
     \<and> (jw_hands_wrists jewelry = Some loc \<longrightarrow>
        (\<exists>before after. build_jewelry_prompt jewelry image_mapping =
           [''Jewelry and accessories: '' @ before
            @ ''hands/wrists: '' @ str_val (jl_text loc) @ '' (extract jewelry from ''
            @ get_label (or_empty image_mapping) ''jewelry_hands''
                ''the hand/wrist jewelry reference image''
            @ '', ignore person/background)'' @ after @ ''.'']))"
proof (intro conjI impI)
  let ?m = "or_empty image_mapping"
  let ?N = "neck_jewelry_items jewelry ?m"
  let ?E = "ears_jewelry_items jewelry ?m"
  let ?H = "hands_jewelry_items jewelry ?m"
  assume loc: "jw_neck jewelry = Some loc"
  have "?N = [''neck: '' @ str_val (jl_text loc) @ '' (extract jewelry from ''
          @ get_label ?m ''jewelry_neck'' ''the neck jewelry reference image''
          @ '', ignore person/background)'']"
    using assms loc by (simp add: neck_jewelry_items_def get_location_def get_str_def Let_def)
  then have "?N @ ?E @ ?H = [] @ [''neck: '' @ str_val (jl_text loc) @ '' (extract jewelry from ''
          @ get_label ?m ''jewelry_neck'' ''the neck jewelry reference image''
          @ '', ignore person/background)''] @ (?E @ ?H)"
    by simp
  from build_jewelry_prompt_contains [OF this]
  show "\<exists>before after. build_jewelry_prompt jewelry image_mapping =
         [''Jewelry and accessories: '' @ before
          @ ''neck: '' @ str_val (jl_text loc) @ '' (extract jewelry from ''
          @ get_label (or_empty image_mapping) ''jewelry_neck''
              ''the neck jewelry reference image''
          @ '', ignore person/background)'' @ after @ ''.'']"
    by (metis append.assoc)
next
  let ?m = "or_empty image_mapping"
  let ?N = "neck_jewelry_items jewelry ?m"
  let ?E = "ears_jewelry_items jewelry ?m"
  let ?H = "hands_jewelry_items jewelry ?m"
  assume loc: "jw_ears jewelry = Some loc"
  have "?E = [''ears: '' @ str_val (jl_text loc) @ '' (extract jewelry from ''
          @ get_label ?m ''jewelry_ears'' ''the ear jewelry reference image''
          @ '', ignore person/background)'']"
    using assms loc by (simp add: ears_jewelry_items_def get_location_def get_str_def Let_def)
  then have "?N @ ?E @ ?H = ?N @ [''ears: '' @ str_val (jl_text loc) @ '' (extract jewelry from ''
          @ get_label ?m ''jewelry_ears'' ''the ear jewelry reference image''
          @ '', ignore person/background)''] @ ?H"
    by simp
  from build_jewelry_prompt_contains [OF this]
  show "\<exists>before after. build_jewelry_prompt jewelry image_mapping =
         [''Jewelry and accessories: '' @ before
          @ ''ears: '' @ str_val (jl_text loc) @ '' (extract jewelry from ''
          @ get_label (or_empty image_mapping) ''jewelry_ears''
              ''the ear jewelry reference image''
          @ '', ignore person/background)'' @ after @ ''.'']"
    by (metis append.assoc)
next
  let ?m = "or_empty image_mapping"
  let ?N = "neck_jewelry_items jewelry ?m"
  let ?E = "ears_jewelry_items jewelry ?m"
  let ?H = "hands_jewelry_items jewelry ?m"
  assume loc: "jw_hands_wrists jewelry = Some loc"
  have "?H = [''hands/wrists: '' @ str_val (jl_text loc) @ '' (extract jewelry from ''
          @ get_label ?m ''jewelry_hands'' ''the hand/wrist jewelry reference image''
          @ '', ignore person/background)'']"
    using assms loc by (simp add: hands_jewelry_items_def get_location_def get_str_def Let_def)
  then have "?N @ ?E @ ?H = (?N @ ?E) @ [''hands/wrists: '' @ str_val (jl_text loc)
          @ '' (extract jewelry from ''
          @ get_label ?m ''jewelry_hands'' ''the hand/wrist jewelry reference image''
          @ '', ignore person/background)''] @ []"
    by simp
  from build_jewelry_prompt_contains [OF this]
  show "\<exists>before after. build_jewelry_prompt jewelry image_mapping =
         [''Jewelry and accessories: '' @ before
          @ ''hands/wrists: '' @ str_val (jl_text loc) @ '' (extract jewelry from ''
          @ get_label (or_empty image_mapping) ''jewelry_hands''
              ''the hand/wrist jewelry reference image''
          @ '', ignore person/background)'' @ after @ ''.'']"
    by (metis append.assoc)
qed

theorem jewelry_text_and_image_directive_witness:
  "enabled gold_chain_location \<and> jl_method gold_chain_location = Some ''text_and_image''
   \<and> truthy (jl_text gold_chain_location) \<and> jw_neck gold_chain_jewelry = Some gold_chain_location
   \<and> (\<exists>before after. build_jewelry_prompt gold_chain_jewelry None =
         [''Jewelry and accessories: '' @ before
          @ ''neck: thin gold chain (extract jewelry from the neck jewelry reference image, ''
          @ ''ignore person/background)'' @ after @ ''.''])"
proof -
  have h: "enabled gold_chain_location" "jl_method gold_chain_location = Some ''text_and_image''"
    "truthy (jl_text gold_chain_location)"
    by (simp_all add: gold_chain_location_def enabled_def truthy_def determine_method_def
        has_content_def strip_def isspace_def)
  have n: "jw_neck gold_chain_jewelry = Some gold_chain_location"
    by (simp add: gold_chain_jewelry_def)
  have t: "str_val (jl_text gold_chain_location) = ''thin gold chain''"
    by (simp add: gold_chain_location_def str_val_def)
  have l: "get_label (or_empty None) ''jewelry_neck'' ''the neck jewelry reference image''
             = ''the neck jewelry reference image''"
    by (simp add: get_label_def or_empty_def)
  from jewelry_text_and_image_directive [OF h, of gold_chain_jewelry None] n
  have "\<exists>before after. build_jewelry_prompt gold_chain_jewelry None =
           [''Jewelry and accessories: '' @ before
            @ ''neck: '' @ str_val (jl_text gold_chain_location) @ '' (extract jewelry from ''
            @ get_label (or_empty None) ''jewelry_neck''
                ''the neck jewelry reference image''
            @ '', ignore person/background)'' @ after @ ''.'']"
    by blast
  then show ?thesis
    unfolding t l using h n by simp
qed

subsection \<open>Validation before the run\<close>

text \<open>
  C2, as the code has it. The handler stops the run, before any image is prepared, exactly
  when the model reference and the base outfit both have neither a text nor an image; it
  reports a message and raises no configuration error. An outfit text alone is enough for
  the run to go on.
\<close>

theorem run_stopped_iff_no_reference:
  assumes "lookup config ''model_reference'' = Some (ModelReference model_ref)"
    and "lookup config ''base_outfit'' = Some (BaseOutfit outfit)"
    and "mr_text_description model_ref \<noteq> None" and "mr_image_url model_ref \<noteq> None"
    and "bo_text_description outfit \<noteq> None" and "bo_image_url outfit \<noteq> None"
  shows "(\<not> has_model_ref model_ref \<and> \<not> has_outfit outfit \<longrightarrow>
            generate_clicked fetch config = Inl (Stopped
              (''Please provide at least a model reference or outfit reference ''
               @ ''to generate.'')))
         \<and> (has_model_ref model_ref \<or> has_outfit outfit \<longrightarrow>
            (\<forall>message. generate_clicked fetch config \<noteq> Inl (Stopped message)))"
  using assms
  by (auto simp: generate_clicked_def Let_def
      split: option.splits entry.splits prod.splits)

theorem red_silk_dress_not_stopped:
  "\<not> isl (generate_clicked failing_fetch red_silk_dress_config)"
  by (simp add: generate_clicked_def red_silk_dress_config_def lookup_def Let_def
      red_silk_dress_outfit_def blank_model_reference_def truthy_def has_model_ref_def
      has_outfit_def split: prod.splits)

theorem run_stopped_iff_no_reference_witness:
  "has_outfit red_silk_dress_outfit
   \<and> generate_clicked failing_fetch red_silk_dress_config
       \<noteq> Inl (Stopped (''Please provide at least a model reference or outfit reference ''
                         @ ''to generate.''))
   \<and> \<not> has_model_ref blank_model_reference \<and> \<not> has_outfit blank_outfit
   \<and> generate_clicked failing_fetch nothing_entered_config
       = Inl (Stopped (''Please provide at least a model reference or outfit reference ''
                       @ ''to generate.''))"
proof -
  have m: "mr_text_description blank_model_reference \<noteq> None"
    "mr_image_url blank_model_reference \<noteq> None"
    by (simp_all add: blank_model_reference_def)
  have r: "lookup red_silk_dress_config ''model_reference'' = Some (ModelReference blank_model_reference)"
    "lookup red_silk_dress_config ''base_outfit'' = Some (BaseOutfit red_silk_dress_outfit)"
    "bo_text_description red_silk_dress_outfit \<noteq> None"
    "bo_image_url red_silk_dress_outfit \<noteq> None"
    by (simp_all add: red_silk_dress_config_def lookup_def red_silk_dress_outfit_def)
  have n: "lookup nothing_entered_config ''model_reference'' = Some (ModelReference blank_model_reference)"
    "lookup nothing_entered_config ''base_outfit'' = Some (BaseOutfit blank_outfit)"
    "bo_text_description blank_outfit \<noteq> None"
    "bo_image_url blank_outfit \<noteq> None"
    by (simp_all add: nothing_entered_config_def lookup_def blank_outfit_def)
  have h: "has_outfit red_silk_dress_outfit" "\<not> has_model_ref blank_model_reference"
    "\<not> has_outfit blank_outfit"
    by (simp_all add: has_outfit_def has_model_ref_def red_silk_dress_outfit_def
        blank_outfit_def blank_model_reference_def truthy_def)
  show ?thesis
    using run_stopped_iff_no_reference [OF r(1,2) m r(3,4), of failing_fetch]
      run_stopped_iff_no_reference [OF n(1,2) m n(3,4), of failing_fetch] h
    by simp
qed

subsection \<open>The consistency directive\<close>

lemma directive_not_model_reference:
  "consistency_directive \<notin> set (build_model_reference_prompt model_ref image_mapping)"
  by (simp add: build_model_reference_prompt_def consistency_directive_def Let_def)

lemma directive_not_outfit:
  "consistency_directive \<notin> set (build_outfit_prompt outfit image_mapping)"
  by (simp add: build_outfit_prompt_def consistency_directive_def Let_def)

lemma directive_not_additional_items:
  "consistency_directive \<notin> set (build_additional_items_prompt items image_mapping)"
  by (simp add: build_additional_items_prompt_def consistency_directive_def Let_def)

lemma directive_not_jewelry:
  "consistency_directive \<notin> set (build_jewelry_prompt jewelry image_mapping)"
  by (simp add: build_jewelry_prompt_def consistency_directive_def Let_def)

lemma directive_not_environment:
  "consistency_directive \<notin> set (build_environment_prompt environment image_mapping)"
  by (simp add: build_environment_prompt_def consistency_directive_def Let_def)

lemma directive_not_photography:
  "consistency_directive \<notin> set (build_photography_prompt photography image_mapping)"
  by (simp add: build_photography_prompt_def consistency_directive_def Let_def)

lemma directive_not_quality_boost: "consistency_directive \<noteq> build_quality_boost"
  by (simp add: consistency_directive_def build_quality_boost_def)

lemmas directive_not_builders =
  directive_not_model_reference directive_not_outfit directive_not_additional_items
  directive_not_jewelry directive_not_environment directive_not_photography
  directive_not_quality_boost

text \<open>
  No fragment of a section begins as the directive does, whatever follows the fragment in
  the prompt: the fragments that begin with the same word go on with a colon or with
  another word.
\<close>

lemma model_reference_start:
  "f \<in> set (build_model_reference_prompt model_ref image_mapping) \<Longrightarrow>
     \<not> prefix ''CRITICAL C'' (f @ rest)"
  by (auto simp add: build_model_reference_prompt_def Let_def split: if_splits)

lemma outfit_start:
  "f \<in> set (build_outfit_prompt outfit image_mapping) \<Longrightarrow> \<not> prefix ''CRITICAL C'' (f @ rest)"
  by (auto simp add: build_outfit_prompt_def Let_def split: if_splits)

lemma additional_items_start:
  "f \<in> set (build_additional_items_prompt items image_mapping) \<Longrightarrow>
     \<not> prefix ''CRITICAL C'' (f @ rest)"
  by (auto simp add: build_additional_items_prompt_def Let_def split: if_splits)

lemma jewelry_start:
  "f \<in> set (build_jewelry_prompt jewelry image_mapping) \<Longrightarrow>
     \<not> prefix ''CRITICAL C'' (f @ rest)"
  by (auto simp add: build_jewelry_prompt_def Let_def split: if_splits)

lemma environment_start:
  "f \<in> set (build_environment_prompt environment image_mapping) \<Longrightarrow>
     \<not> prefix ''CRITICAL C'' (f @ rest)"
  by (auto simp add: build_environment_prompt_def Let_def split: if_splits)

lemma photography_start:
  "f \<in> set (build_photography_prompt photography image_mapping) \<Longrightarrow>
     \<not> prefix ''CRITICAL C'' (f @ rest)"
  by (auto simp add: build_photography_prompt_def Let_def split: if_splits)

lemma quality_boost_start: "\<not> prefix ''CRITICAL C'' (build_quality_boost @ rest)"
  by (simp add: build_quality_boost_def)

lemma directive_start: "prefix ''CRITICAL C'' consistency_directive"
  by (simp add: consistency_directive_def)

lemma single_prompt_start:
  assumes "\<not> output_count config > 1"
  shows "\<not> prefix consistency_directive (build_photoshoot_prompt config image_mapping)"
proof
  assume "prefix consistency_directive (build_photoshoot_prompt config image_mapping)"
  with directive_start
  have start: "prefix ''CRITICAL C'' (build_photoshoot_prompt config image_mapping)"
    by (rule prefix_order.trans)
  have fragments: "\<not> prefix ''CRITICAL C'' (f @ rest)"
    if "f \<in> set (photoshoot_prompt_parts config image_mapping)" for f rest
    using that assms
    by (auto simp add: photoshoot_prompt_parts_def Let_def quality_boost_start
        split: if_splits
        dest: model_reference_start outfit_start additional_items_start jewelry_start
          environment_start photography_start)
  obtain f fs where parts: "photoshoot_prompt_parts config image_mapping = f # fs"
    by (cases "photoshoot_prompt_parts config image_mapping")
       (simp_all add: photoshoot_prompt_parts_def Let_def)
  then have "build_photoshoot_prompt config image_mapping
      = f @ (if fs = [] then [] else '' '' @ join '' '' fs)"
    by (simp add: build_photoshoot_prompt_def join_Cons)
  with start fragments [of f] parts show False
    by simp
qed

lemma sections_but_output_cong:
  assumes "\<forall>k. k \<noteq> ''meta'' \<and> k \<noteq> ''output'' \<longrightarrow> lookup config' k = lookup config k"
  shows "get_model_reference config' = get_model_reference config"
    and "get_base_outfit config' = get_base_outfit config"
    and "get_additional_items config' = get_additional_items config"
    and "get_jewelry config' = get_jewelry config"
    and "get_environment config' = get_environment config"
    and "get_photography config' = get_photography config"
  using assms
  by (simp_all add: get_model_reference_def get_base_outfit_def get_additional_items_def
      get_jewelry_def get_environment_def get_photography_def)

lemma batch_prompt:
  assumes "output_count config > 1" and "\<not> output_count config' > 1"
    and "\<forall>k. k \<noteq> ''meta'' \<and> k \<noteq> ''output'' \<longrightarrow> lookup config' k = lookup config k"
  shows "build_photoshoot_prompt config image_mapping
           = consistency_directive @ '' '' @ build_photoshoot_prompt config' image_mapping"
proof -
  note same = sections_but_output_cong [OF assms(3)]
  have "photoshoot_prompt_parts config image_mapping
      = consistency_directive # photoshoot_prompt_parts config' image_mapping"
    using assms(1,2) by (simp add: photoshoot_prompt_parts_def Let_def same)
  moreover have "photoshoot_prompt_parts config' image_mapping \<noteq> []"
    by (simp add: photoshoot_prompt_parts_def Let_def)
  ultimately show ?thesis
    by (simp add: build_photoshoot_prompt_def join_Cons)
qed

text \<open>
  C5. The composed prompt begins with the consistency directive if and only if more than
  one output is requested. The directive is one of the fragments the composer emits if
  and only if more than one output is requested, it is none of them for a single output,
  and when it is emitted it is the first fragment. The prompt of a batch is the directive,
  a space, and the prompt that the same sections give for a single output: the directive
  at its head is all that the count adds to the prompt.
\<close>

theorem consistency_directive_iff_batch:
  "(prefix consistency_directive (build_photoshoot_prompt config image_mapping)
      \<longleftrightarrow> output_count config > 1)
   \<and> (consistency_directive \<in> set (photoshoot_prompt_parts config image_mapping)
      \<longleftrightarrow> output_count config > 1)
   \<and> (output_count config = 1 \<longrightarrow>
        consistency_directive \<notin> set (photoshoot_prompt_parts config image_mapping)
        \<and> \<not> prefix consistency_directive (build_photoshoot_prompt config image_mapping))
   \<and> (output_count config > 1 \<longrightarrow>
        hd (photoshoot_prompt_parts config image_mapping) = consistency_directive
        \<and> prefix consistency_directive (build_photoshoot_prompt config image_mapping))
   \<and> (output_count config > 1 \<and> output_count config' \<le> 1
        \<and> (\<forall>k. k \<noteq> ''meta'' \<and> k \<noteq> ''output'' \<longrightarrow> lookup config' k = lookup config k) \<longrightarrow>
        build_photoshoot_prompt config image_mapping
          = consistency_directive @ '' '' @ build_photoshoot_prompt config' image_mapping)"
proof -
  have iff: "consistency_directive \<in> set (photoshoot_prompt_parts config image_mapping)
      \<longleftrightarrow> output_count config > 1"
    by (simp add: photoshoot_prompt_parts_def Let_def directive_not_builders)
  have first: "hd (photoshoot_prompt_parts config image_mapping) = consistency_directive
      \<and> prefix consistency_directive (build_photoshoot_prompt config image_mapping)"
    if batch: "output_count config > 1"
  proof -
    obtain rest where "photoshoot_prompt_parts config image_mapping = consistency_directive # rest"
      using batch by (simp add: photoshoot_prompt_parts_def Let_def)
    then show ?thesis
      by (simp add: build_photoshoot_prompt_def join_Cons)
  qed
  have single: "\<not> prefix consistency_directive (build_photoshoot_prompt config image_mapping)"
    if "\<not> output_count config > 1"
    using that by (rule single_prompt_start)
  have string: "prefix consistency_directive (build_photoshoot_prompt config image_mapping)
      \<longleftrightarrow> output_count config > 1"
    using first single by blast
  have batch: "build_photoshoot_prompt config image_mapping
      = consistency_directive @ '' '' @ build_photoshoot_prompt config' image_mapping"
    if "output_count config > 1" and "output_count config' \<le> 1"
      and "\<forall>k. k \<noteq> ''meta'' \<and> k \<noteq> ''output'' \<longrightarrow> lookup config' k = lookup config k"
    using that by (intro batch_prompt) simp_all
  from iff first single string batch show ?thesis
    by simp
qed

theorem consistency_directive_iff_batch_witness:
  "output_count red_silk_dress_config = 1
   \<and> consistency_directive \<notin> set (photoshoot_prompt_parts red_silk_dress_config None)
   \<and> \<not> prefix consistency_directive (build_photoshoot_prompt red_silk_dress_config None)
   \<and> output_count nothing_entered_config > 1
   \<and> hd (photoshoot_prompt_parts nothing_entered_config None) = consistency_directive
   \<and> prefix consistency_directive (build_photoshoot_prompt nothing_entered_config None)
   \<and> output_count model_image_config > 1
   \<and> output_count model_image_config_single \<le> 1
   \<and> build_photoshoot_prompt model_image_config None
       = consistency_directive @ '' '' @ build_photoshoot_prompt model_image_config_single None"
proof -
  have counts: "output_count red_silk_dress_config = 1" "output_count nothing_entered_config = 2"
    "output_count model_image_config = 3" "output_count model_image_config_single = 1"
    by (simp_all add: output_count_def get_output_def lookup_def red_silk_dress_config_def
        nothing_entered_config_def model_image_config_def model_image_config_single_def)
  have same: "\<forall>k. k \<noteq> ''meta'' \<and> k \<noteq> ''output'' \<longrightarrow>
      lookup model_image_config_single k = lookup model_image_config k"
    by (auto simp: lookup_def model_image_config_single_def model_image_config_def)
  show ?thesis
    using counts same consistency_directive_iff_batch [of red_silk_dress_config None]
      consistency_directive_iff_batch [of nothing_entered_config None]
      consistency_directive_iff_batch [of model_image_config None model_image_config_single]
    by simp
qed

subsection \<open>Determinism of the prompt\<close>

lemma sections_cong:
  assumes "\<forall>k. k \<noteq> ''meta'' \<longrightarrow> lookup config' k = lookup config k"
  shows "get_model_reference config' = get_model_reference config"
    and "get_base_outfit config' = get_base_outfit config"
    and "get_additional_items config' = get_additional_items config"
    and "get_jewelry config' = get_jewelry config"
    and "get_environment config' = get_environment config"
    and "get_photography config' = get_photography config"
    and "get_output config' = get_output config"
  using assms
  by (simp_all add: get_model_reference_def get_base_outfit_def get_additional_items_def
      get_jewelry_def get_environment_def get_photography_def get_output_def)

text \<open>
  C9. The prompt is a function of the configuration's sections and of the label mapping
  alone: two configurations that hold equal values under every key the composer reads
  (whatever the order of their keys, and whatever their job identifier), with equal label
  mappings (an absent mapping counting as the empty one), give the same prompt, character
  for character.
\<close>

theorem build_photoshoot_prompt_deterministic:
  assumes "\<forall>k. k \<noteq> ''meta'' \<longrightarrow> lookup config' k = lookup config k"
    and "or_empty image_mapping' = or_empty image_mapping"
  shows "build_photoshoot_prompt config' image_mapping'
           = build_photoshoot_prompt config image_mapping"
  using assms(2)
  by (simp add: build_photoshoot_prompt_def photoshoot_prompt_parts_def output_count_def
      sections_cong [OF assms(1)] Let_def)

theorem build_photoshoot_prompt_deterministic_witness:
  "or_empty (Some Map.empty) = or_empty None
   \<and> red_silk_dress_config_again \<noteq> red_silk_dress_config
   \<and> build_photoshoot_prompt red_silk_dress_config_again (Some Map.empty)
       = build_photoshoot_prompt red_silk_dress_config None"
proof -
  have l: "\<forall>k. k \<noteq> ''meta'' \<longrightarrow>
      lookup red_silk_dress_config_again k = lookup red_silk_dress_config k"
    by (auto simp: lookup_def red_silk_dress_config_again_def red_silk_dress_config_def)
  have m: "or_empty (Some Map.empty) = or_empty None"
    by (simp add: or_empty_def)
  have d: "red_silk_dress_config_again \<noteq> red_silk_dress_config"
    by (simp add: red_silk_dress_config_again_def red_silk_dress_config_def)
  from build_photoshoot_prompt_deterministic [OF l m] l m d show ?thesis
    by blast
qed

subsection \<open>Order of the assembled parts\<close>

lemma guarded_reference_fst:
  "fst (if c then add_reference fetch t u l d st else st)
     = fst st @ fst (if c then add_reference fetch t u l d ([], Map.empty) else ([], Map.empty))"
  by (cases st) (simp add: add_reference_def add_image_part_def split: option.splits)

lemma add_model_reference_fst:
  "fst (add_model_reference fetch config st)
     = fst st @ contribution (add_model_reference fetch config)"
  unfolding add_model_reference_def contribution_def Let_def by (rule guarded_reference_fst)

lemma add_base_outfit_fst:
  "fst (add_base_outfit fetch config st) = fst st @ contribution (add_base_outfit fetch config)"
  unfolding add_base_outfit_def contribution_def Let_def by (rule guarded_reference_fst)

lemma add_neck_jewelry_fst:
  "fst (add_neck_jewelry fetch config st) = fst st @ contribution (add_neck_jewelry fetch config)"
  unfolding add_neck_jewelry_def contribution_def Let_def by (rule guarded_reference_fst)

lemma add_ears_jewelry_fst:
  "fst (add_ears_jewelry fetch config st) = fst st @ contribution (add_ears_jewelry fetch config)"
  unfolding add_ears_jewelry_def contribution_def Let_def by (rule guarded_reference_fst)

lemma add_hands_jewelry_fst:
  "fst (add_hands_jewelry fetch config st)
     = fst st @ contribution (add_hands_jewelry fetch config)"
  unfolding add_hands_jewelry_def contribution_def Let_def by (rule guarded_reference_fst)

lemma add_environment_fst:
  "fst (add_environment fetch config st) = fst st @ contribution (add_environment fetch config)"
  unfolding add_environment_def contribution_def Let_def by (rule guarded_reference_fst)

lemma add_pose_fst:
  "fst (add_pose fetch config st) = fst st @ contribution (add_pose fetch config)"
  unfolding add_pose_def contribution_def Let_def by (rule guarded_reference_fst)

lemma add_hair_fst:
  "fst (add_hair fetch config st) = fst st @ contribution (add_hair fetch config)"
  unfolding add_hair_def contribution_def Let_def by (rule guarded_reference_fst)

lemma add_items_from_fst:
  "fst (add_items_from fetch idx items st)
     = fst st @ concat (map (\<lambda>(i, item). contribution (add_items_from fetch i [item]))
                          (enumerate idx items))"
proof (induction items arbitrary: idx st)
  case Nil
  show ?case by simp
next
  case (Cons item items)
  have one: "fst (add_items_from fetch idx [item] st)
      = fst st @ contribution (add_items_from fetch idx [item])"
    unfolding add_items_from.simps contribution_def Let_def by (rule guarded_reference_fst)
  have "add_items_from fetch idx (item # items) st
      = add_items_from fetch (Suc idx) items (add_items_from fetch idx [item] st)"
    by simp
  then show ?case
    by (simp only: Cons.IH one enumerate_simps list.map concat.simps prod.case append_assoc)
qed

lemma add_additional_items_fst:
  "fst (add_additional_items fetch config st)
     = fst st @ concat (map (\<lambda>(i, item). contribution (add_items_from fetch i [item]))
                          (enumerate 0 (get_additional_items config)))"
  by (simp add: add_additional_items_def add_items_from_fst)

lemmas block_fst =
  add_model_reference_fst add_base_outfit_fst add_additional_items_fst add_neck_jewelry_fst
  add_ears_jewelry_fst add_hands_jewelry_fst add_environment_fst add_pose_fst add_hair_fst

subsection \<open>Dictionaries do not depend on the order of their keys\<close>

lemma lookup_Some_iff:
  "distinct (map key_of config) \<Longrightarrow>
     lookup config k = Some e \<longleftrightarrow> e \<in> set config \<and> key_of e = k"
  by (induction config) (auto simp: lookup_def)

lemma lookup_None_iff: "lookup config k = None \<longleftrightarrow> k \<notin> key_of ` set config"
  by (auto simp: lookup_def find_None_iff)

lemma lookup_reordered:
  assumes "distinct (map key_of config)" and "mset config' = mset config"
  shows "lookup config' k = lookup config k"
proof -
  have s: "set config' = set config"
    using assms(2) by (rule mset_eq_setD)
  have "mset (map key_of config') = mset (map key_of config)"
    using assms(2) by simp
  then have d: "distinct (map key_of config')"
    using assms(1) by (metis mset_eq_imp_distinct_iff)
  show ?thesis
  proof (cases "lookup config k")
    case None
    then have "lookup config' k = None"
      using s by (simp add: lookup_None_iff)
    with None show ?thesis by simp
  next
    case (Some e)
    then have "e \<in> set config \<and> key_of e = k"
      by (simp add: lookup_Some_iff [OF assms(1)])
    then have "lookup config' k = Some e"
      using s by (simp add: lookup_Some_iff [OF d])
    with Some show ?thesis by simp
  qed
qed

lemma prepare_image_parts_contributions:
  "fst (prepare_image_parts fetch config)
     = contribution (add_model_reference fetch config)
       @ contribution (add_base_outfit fetch config)
       @ concat (map (\<lambda>(i, item). contribution (add_items_from fetch i [item]))
                   (enumerate 0 (get_additional_items config)))
       @ contribution (add_neck_jewelry fetch config)
       @ contribution (add_ears_jewelry fetch config)
       @ contribution (add_hands_jewelry fetch config)
       @ contribution (add_environment fetch config)
       @ contribution (add_pose fetch config)
       @ contribution (add_hair fetch config)"
  by (simp add: prepare_image_parts_def Let_def block_fst)

lemma prepare_image_parts_reordered:
  assumes "distinct (map key_of config)" and "mset config' = mset config"
  shows "prepare_image_parts fetch config' = prepare_image_parts fetch config"
proof -
  have "\<forall>k. k \<noteq> ''meta'' \<longrightarrow> lookup config' k = lookup config k"
    using lookup_reordered [OF assms] by simp
  note same = sections_cong [OF this]
  show ?thesis
    by (simp add: prepare_image_parts_def add_model_reference_def add_base_outfit_def
        add_additional_items_def add_neck_jewelry_def add_ears_jewelry_def
        add_hands_jewelry_def add_environment_def add_pose_def add_hair_def same)
qed

subsection \<open>Labels and parts of an assembly\<close>

lemma truthy_str_val: "truthy v \<Longrightarrow> str_val v \<noteq> []"
  by (simp add: truthy_def str_val_def split: option.splits)

lemma add_reference_kinds:
  "u \<noteq> [] \<Longrightarrow>
     map kind (fst (add_reference fetch t u l d st)) = map kind (fst st) @ label_kinds fetch (l, u)"
  by (cases st) (simp add: add_reference_def add_image_part_def label_kinds_def split: option.splits)

lemma add_reference_dom:
  "dom (snd (add_reference fetch t u l d st)) = insert l (dom (snd st))"
  by (cases st) (simp add: add_reference_def)

lemma add_model_reference_kinds:
  "map kind (fst (add_model_reference fetch config st))
     = map kind (fst st) @ concat (map (label_kinds fetch) (model_reference_labels config))"
  by (simp add: add_model_reference_def model_reference_labels_def Let_def add_reference_kinds
      truthy_str_val)

lemma add_model_reference_dom:
  "dom (snd (add_model_reference fetch config st))
     = dom (snd st) \<union> fst ` set (model_reference_labels config)"
  by (simp add: add_model_reference_def model_reference_labels_def Let_def add_reference_dom)

lemma add_base_outfit_kinds:
  "map kind (fst (add_base_outfit fetch config st))
     = map kind (fst st) @ concat (map (label_kinds fetch) (base_outfit_labels config))"
  by (simp add: add_base_outfit_def base_outfit_labels_def Let_def add_reference_kinds
      truthy_str_val)

lemma add_base_outfit_dom:
  "dom (snd (add_base_outfit fetch config st))
     = dom (snd st) \<union> fst ` set (base_outfit_labels config)"
  by (simp add: add_base_outfit_def base_outfit_labels_def Let_def add_reference_dom)

lemma add_items_from_kinds:
  "map kind (fst (add_items_from fetch idx items st))
     = map kind (fst st) @ concat (map (label_kinds fetch) (item_labels_from idx items))"
  by (induction items arbitrary: idx st)
     (simp_all add: Let_def add_reference_kinds truthy_str_val)

lemma add_items_from_dom:
  "dom (snd (add_items_from fetch idx items st))
     = dom (snd st) \<union> fst ` set (item_labels_from idx items)"
  by (induction items arbitrary: idx st) (simp_all add: Let_def add_reference_dom)

lemma add_neck_jewelry_kinds:
  "map kind (fst (add_neck_jewelry fetch config st))
     = map kind (fst st)
       @ concat (map (label_kinds fetch)
           (location_labels ''jewelry_neck'' (get_location (jw_neck (get_jewelry config)))))"
  by (auto simp add: add_neck_jewelry_def location_labels_def Let_def add_reference_kinds
      truthy_str_val)

lemma add_neck_jewelry_dom:
  "dom (snd (add_neck_jewelry fetch config st))
     = dom (snd st)
       \<union> fst ` set (location_labels ''jewelry_neck'' (get_location (jw_neck (get_jewelry config))))"
  by (auto simp add: add_neck_jewelry_def location_labels_def Let_def add_reference_dom)

lemma add_ears_jewelry_kinds:
  "map kind (fst (add_ears_jewelry fetch config st))
     = map kind (fst st)
       @ concat (map (label_kinds fetch)
           (location_labels ''jewelry_ears'' (get_location (jw_ears (get_jewelry config)))))"
  by (auto simp add: add_ears_jewelry_def location_labels_def Let_def add_reference_kinds
      truthy_str_val)

lemma add_ears_jewelry_dom:
  "dom (snd (add_ears_jewelry fetch config st))
     = dom (snd st)
       \<union> fst ` set (location_labels ''jewelry_ears'' (get_location (jw_ears (get_jewelry config))))"
  by (auto simp add: add_ears_jewelry_def location_labels_def Let_def add_reference_dom)

lemma add_hands_jewelry_kinds:
  "map kind (fst (add_hands_jewelry fetch config st))
     = map kind (fst st)
       @ concat (map (label_kinds fetch)
           (location_labels ''jewelry_hands''
              (get_location (jw_hands_wrists (get_jewelry config)))))"
  by (auto simp add: add_hands_jewelry_def location_labels_def Let_def add_reference_kinds
      truthy_str_val)

lemma add_hands_jewelry_dom:
  "dom (snd (add_hands_jewelry fetch config st))
     = dom (snd st)
       \<union> fst ` set (location_labels ''jewelry_hands''
                      (get_location (jw_hands_wrists (get_jewelry config))))"
  by (auto simp add: add_hands_jewelry_def location_labels_def Let_def add_reference_dom)

lemma add_environment_kinds:
  "map kind (fst (add_environment fetch config st))
     = map kind (fst st) @ concat (map (label_kinds fetch) (environment_labels config))"
  by (simp add: add_environment_def environment_labels_def Let_def add_reference_kinds
      truthy_str_val)

lemma add_environment_dom:
  "dom (snd (add_environment fetch config st))
     = dom (snd st) \<union> fst ` set (environment_labels config)"
  by (simp add: add_environment_def environment_labels_def Let_def add_reference_dom)

lemma add_pose_kinds:
  "map kind (fst (add_pose fetch config st))
     = map kind (fst st) @ concat (map (label_kinds fetch) (pose_labels config))"
  by (simp add: add_pose_def pose_labels_def Let_def add_reference_kinds truthy_str_val)

lemma add_pose_dom:
  "dom (snd (add_pose fetch config st)) = dom (snd st) \<union> fst ` set (pose_labels config)"
  by (simp add: add_pose_def pose_labels_def Let_def add_reference_dom)

lemma add_hair_kinds:
  "map kind (fst (add_hair fetch config st))
     = map kind (fst st) @ concat (map (label_kinds fetch) (hair_labels config))"
  by (simp add: add_hair_def hair_labels_def Let_def add_reference_kinds truthy_str_val)

lemma add_hair_dom:
  "dom (snd (add_hair fetch config st)) = dom (snd st) \<union> fst ` set (hair_labels config)"
  by (simp add: add_hair_def hair_labels_def Let_def add_reference_dom)

lemmas block_kinds =
  add_model_reference_kinds add_base_outfit_kinds add_items_from_kinds add_neck_jewelry_kinds
  add_ears_jewelry_kinds add_hands_jewelry_kinds add_environment_kinds add_pose_kinds
  add_hair_kinds

lemmas block_dom =
  add_model_reference_dom add_base_outfit_dom add_items_from_dom add_neck_jewelry_dom
  add_ears_jewelry_dom add_hands_jewelry_dom add_environment_dom add_pose_dom add_hair_dom

lemma prepare_image_parts_kinds:
  "map kind (fst (prepare_image_parts fetch config))
     = concat (map (label_kinds fetch) (labelled_references config))"
  by (simp add: prepare_image_parts_def Let_def add_additional_items_def block_kinds
      labelled_references_def additional_items_labels_def jewelry_labels_def)

lemma prepare_image_parts_dom:
  "dom (snd (prepare_image_parts fetch config)) = fst ` set (labelled_references config)"
  by (simp add: prepare_image_parts_def Let_def add_additional_items_def block_dom
      labelled_references_def additional_items_labels_def jewelry_labels_def image_Un Un_assoc)

subsection \<open>Decimal numerals are different for different numbers\<close>

lemma str_of_nat_not_empty: "str_of_nat n \<noteq> []"
  by (subst str_of_nat.simps) simp

lemma str_of_nat_last: "last (str_of_nat n) = ''0123456789'' ! (n mod 10)"
  by (subst str_of_nat.simps) simp

lemma str_of_nat_butlast:
  "butlast (str_of_nat n) = (if n < 10 then [] else str_of_nat (n div 10))"
  by (subst str_of_nat.simps) simp

lemma digit_inj:
  assumes "a < 10" and "b < 10" and "''0123456789'' ! a = ''0123456789'' ! b"
  shows "a = b"
proof -
  have "distinct ''0123456789''" by simp
  then show ?thesis
    using assms by (simp add: nth_eq_iff_index_eq)
qed

lemma str_of_nat_inj: "str_of_nat m = str_of_nat n \<Longrightarrow> m = n"
proof (induction n arbitrary: m rule: str_of_nat.induct)
  case (1 n)
  from 1(2) have "last (str_of_nat m) = last (str_of_nat n)" by simp
  then have "m mod 10 = n mod 10"
    by (simp add: str_of_nat_last digit_inj)
  from 1(2) have b: "butlast (str_of_nat m) = butlast (str_of_nat n)" by simp
  show ?case
  proof (cases "n < 10")
    case True
    with b have "m < 10"
      by (simp add: str_of_nat_butlast str_of_nat_not_empty split: if_splits)
    with True \<open>m mod 10 = n mod 10\<close> show ?thesis by simp
  next
    case False
    with b have m: "\<not> m < 10" and "str_of_nat (m div 10) = str_of_nat (n div 10)"
      using str_of_nat_not_empty [of "n div 10"]
      by (auto simp add: str_of_nat_butlast split: if_splits)
    with 1(1) False have "m div 10 = n div 10" by simp
    with \<open>m mod 10 = n mod 10\<close> show ?thesis
      by (metis div_mult_mod_eq)
  qed
qed

subsection \<open>The labels follow the order of the sections\<close>

lemma item_labels_from_subseq:
  "subseq (map fst (item_labels_from idx items))
     (map (\<lambda>i. ''item_'' @ str_of_nat i) [idx..<idx + length items])"
proof (induction items arbitrary: idx)
  case Nil
  show ?case by simp
next
  case (Cons item items)
  have "[idx..<idx + length (item # items)] = idx # [Suc idx..<idx + length (item # items)]"
    by (rule upt_conv_Cons) simp
  then have "[idx..<idx + length (item # items)] = idx # [Suc idx..<Suc idx + length items]"
    by simp
  with Cons.IH [of "Suc idx"] show ?case
    by auto
qed

lemma guard_subseq: "subseq (map fst (if c then [(l, u)] else [])) [l]"
  by simp

lemma labelled_references_subseq:
  "subseq (map fst (labelled_references config))
     (section_order (length (get_additional_items config)))"
proof -
  have "subseq (map fst (labelled_references config))
     ([''model_ref''] @ [''outfit'']
      @ map (\<lambda>i. ''item_'' @ str_of_nat i) [0..<0 + length (get_additional_items config)]
      @ ([''jewelry_neck''] @ [''jewelry_ears''] @ [''jewelry_hands''])
      @ [''environment''] @ [''pose''] @ [''hair''])"
    unfolding labelled_references_def model_reference_labels_def base_outfit_labels_def
      additional_items_labels_def jewelry_labels_def location_labels_def environment_labels_def
      pose_labels_def hair_labels_def Let_def map_append
    by (intro list_emb_append_mono guard_subseq item_labels_from_subseq)
  then show ?thesis
    by (simp add: section_order_def)
qed

lemma section_order_distinct: "distinct (section_order n)"
proof -
  have "inj_on (\<lambda>i. ''item_'' @ str_of_nat i) (set [0..<n])"
    by (auto simp add: inj_on_def dest: str_of_nat_inj)
  then have "distinct (map (\<lambda>i. ''item_'' @ str_of_nat i) [0..<n])"
    by (simp add: distinct_map)
  then show ?thesis
    by (auto simp add: section_order_def)
qed

lemma labelled_references_distinct: "distinct (map fst (labelled_references config))"
  using labelled_references_subseq [of config]
    section_order_distinct [of "length (get_additional_items config)"]
  by (simp only: in_set_subseqs [symmetric] subseqs_distinctD)

subsection \<open>Texts and images of an assembly\<close>

lemma texts_append: "texts (ps @ qs) = texts ps @ texts qs"
  by (induction ps rule: texts.induct) simp_all

lemma images_append: "images (ps @ qs) = images ps @ images qs"
  by (induction ps rule: images.induct) simp_all

lemma add_model_reference_content:
  "list_all2 (\<lambda>r t. prefix (heading (fst r)) t) (model_reference_labels config)
     (texts (contribution (add_model_reference fetch config)))"
  "images (contribution (add_model_reference fetch config))
     = concat (map (fetched fetch) (model_reference_labels config))"
  by (simp_all add: contribution_def add_model_reference_def model_reference_labels_def Let_def
      add_reference_def add_image_part_def heading_def fetched_def truthy_str_val
      split: option.splits)

lemma add_base_outfit_content:
  "list_all2 (\<lambda>r t. prefix (heading (fst r)) t) (base_outfit_labels config)
     (texts (contribution (add_base_outfit fetch config)))"
  "images (contribution (add_base_outfit fetch config))
     = concat (map (fetched fetch) (base_outfit_labels config))"
  by (simp_all add: contribution_def add_base_outfit_def base_outfit_labels_def Let_def
      add_reference_def add_image_part_def heading_def fetched_def truthy_str_val
      split: option.splits)

lemma add_items_from_texts:
  "list_all2 (\<lambda>r t. prefix (heading (fst r)) t) (item_labels_from idx items)
     (texts (concat (map (\<lambda>(i, item). contribution (add_items_from fetch i [item]))
                      (enumerate idx items))))"
  by (induction items arbitrary: idx)
     (simp_all add: contribution_def Let_def add_reference_def add_image_part_def heading_def
        truthy_str_val texts_append split: option.splits)

lemma add_items_from_images:
  "images (concat (map (\<lambda>(i, item). contribution (add_items_from fetch i [item]))
                    (enumerate idx items)))
     = concat (map (fetched fetch) (item_labels_from idx items))"
  by (induction items arbitrary: idx)
     (simp_all add: contribution_def Let_def add_reference_def add_image_part_def fetched_def
        truthy_str_val images_append split: option.splits)

lemma add_neck_jewelry_content:
  "list_all2 (\<lambda>r t. prefix (heading (fst r)) t)
     (location_labels ''jewelry_neck'' (get_location (jw_neck (get_jewelry config))))
     (texts (contribution (add_neck_jewelry fetch config)))"
  "images (contribution (add_neck_jewelry fetch config))
     = concat (map (fetched fetch)
         (location_labels ''jewelry_neck'' (get_location (jw_neck (get_jewelry config)))))"
  by (auto simp add: contribution_def add_neck_jewelry_def location_labels_def Let_def
      add_reference_def add_image_part_def heading_def fetched_def truthy_str_val
      split: option.splits)

lemma add_ears_jewelry_content:
  "list_all2 (\<lambda>r t. prefix (heading (fst r)) t)
     (location_labels ''jewelry_ears'' (get_location (jw_ears (get_jewelry config))))
     (texts (contribution (add_ears_jewelry fetch config)))"
  "images (contribution (add_ears_jewelry fetch config))
     = concat (map (fetched fetch)
         (location_labels ''jewelry_ears'' (get_location (jw_ears (get_jewelry config)))))"
  by (auto simp add: contribution_def add_ears_jewelry_def location_labels_def Let_def
      add_reference_def add_image_part_def heading_def fetched_def truthy_str_val
      split: option.splits)

lemma add_hands_jewelry_content:
  "list_all2 (\<lambda>r t. prefix (heading (fst r)) t)
     (location_labels ''jewelry_hands'' (get_location (jw_hands_wrists (get_jewelry config))))
     (texts (contribution (add_hands_jewelry fetch config)))"
  "images (contribution (add_hands_jewelry fetch config))
     = concat (map (fetched fetch)
         (location_labels ''jewelry_hands''
            (get_location (jw_hands_wrists (get_jewelry config)))))"
  by (auto simp add: contribution_def add_hands_jewelry_def location_labels_def Let_def
      add_reference_def add_image_part_def heading_def fetched_def truthy_str_val
      split: option.splits)

lemma add_environment_content:
  "list_all2 (\<lambda>r t. prefix (heading (fst r)) t) (environment_labels config)
     (texts (contribution (add_environment fetch config)))"
  "images (contribution (add_environment fetch config))
     = concat (map (fetched fetch) (environment_labels config))"
  by (simp_all add: contribution_def add_environment_def environment_labels_def Let_def
      add_reference_def add_image_part_def heading_def fetched_def truthy_str_val
      split: option.splits)

lemma add_pose_content:
  "list_all2 (\<lambda>r t. prefix (heading (fst r)) t) (pose_labels config)
     (texts (contribution (add_pose fetch config)))"
  "images (contribution (add_pose fetch config))
     = concat (map (fetched fetch) (pose_labels config))"
  by (simp_all add: contribution_def add_pose_def pose_labels_def Let_def
      add_reference_def add_image_part_def heading_def fetched_def truthy_str_val
      split: option.splits)

lemma add_hair_content:
  "list_all2 (\<lambda>r t. prefix (heading (fst r)) t) (hair_labels config)
     (texts (contribution (add_hair fetch config)))"
  "images (contribution (add_hair fetch config))
     = concat (map (fetched fetch) (hair_labels config))"
  by (simp_all add: contribution_def add_hair_def hair_labels_def Let_def
      add_reference_def add_image_part_def heading_def fetched_def truthy_str_val
      split: option.splits)

lemma prepare_image_parts_texts:
  "list_all2 (\<lambda>r t. prefix (heading (fst r)) t) (labelled_references config)
     (texts (fst (prepare_image_parts fetch config)))"
  unfolding prepare_image_parts_contributions texts_append labelled_references_def
    additional_items_labels_def jewelry_labels_def append_assoc
  by (intro list_all2_appendI add_model_reference_content(1) add_base_outfit_content(1)
      add_items_from_texts add_neck_jewelry_content(1) add_ears_jewelry_content(1)
      add_hands_jewelry_content(1) add_environment_content(1) add_pose_content(1)
      add_hair_content(1))

lemma prepare_image_parts_images:
  "images (fst (prepare_image_parts fetch config))
     = concat (map (fetched fetch) (labelled_references config))"
  by (simp add: prepare_image_parts_contributions images_append labelled_references_def
      additional_items_labels_def jewelry_labels_def add_model_reference_content(2)
      add_base_outfit_content(2) add_items_from_images add_neck_jewelry_content(2)
      add_ears_jewelry_content(2) add_hands_jewelry_content(2) add_environment_content(2)
      add_pose_content(2) add_hair_content(2))

lemma inline_image_count:
  "length (filter (\<lambda>k. k = InlineImagePart) (concat (map (label_kinds fetch) refs)))
     = length (filter (\<lambda>r. fetch (snd r) \<noteq> None) refs)"
  by (induction refs) (auto simp add: label_kinds_def split: option.splits)

lemma text_count:
  "length (filter (\<lambda>k. k = TextPart) (concat (map (label_kinds fetch) refs))) = length refs"
  by (induction refs) (auto simp add: label_kinds_def split: option.splits)

lemma labelled_references_model_image_config:
  "labelled_references model_image_config = [(''model_ref'', ''https://bucket/model.jpg'')]"
  by (simp add: labelled_references_def model_reference_labels_def base_outfit_labels_def
      additional_items_labels_def jewelry_labels_def location_labels_def environment_labels_def
      pose_labels_def hair_labels_def Let_def model_image_config_def
      get_model_reference_def get_base_outfit_def get_additional_items_def get_jewelry_def
      get_environment_def get_photography_def get_location_def get_pose_def get_hair_def
      lookup_def enabled_def truthy_def str_val_def
      blank_model_reference_def red_silk_dress_outfit_def blank_jewelry_def blank_location_def
      blank_environment_def blank_photography_def)

lemma str_of_nat_0: "str_of_nat 0 = ''0''"
  by (subst str_of_nat.simps) simp

lemma str_of_nat_2: "str_of_nat (Suc (Suc 0)) = ''2''"
  by (subst str_of_nat.simps) simp

lemma labelled_references_styled_config:
  "labelled_references styled_config
     = [(''model_ref'', ''https://bucket/model.jpg''),
        (''outfit'', ''https://bucket/outfit.jpg''),
        (''item_0'', ''https://bucket/jacket.jpg''),
        (''item_2'', ''https://bucket/bag.jpg''),
        (''jewelry_neck'', ''https://bucket/necklace.jpg''),
        (''environment'', ''https://bucket/background.jpg''),
        (''pose'', ''https://bucket/pose.jpg''),
        (''hair'', ''https://bucket/hair.jpg'')]"
  by (simp add: labelled_references_def model_reference_labels_def base_outfit_labels_def
      additional_items_labels_def jewelry_labels_def location_labels_def environment_labels_def
      pose_labels_def hair_labels_def Let_def styled_config_def
      get_model_reference_def get_base_outfit_def get_additional_items_def get_jewelry_def
      get_environment_def get_photography_def get_location_def get_pose_def get_hair_def
      lookup_def enabled_def truthy_def str_val_def str_of_nat_0 str_of_nat_2
      blank_model_reference_def blank_outfit_def blank_jewelry_def blank_location_def
      gold_chain_location_def background_image_environment_def
      reference_images_photography_def)

text \<open>
  C7. The labels of the sections that are assembled follow the fixed order: model
  reference, base outfit, the additional items in the order of their list, neck, ear and
  hand jewelry, environment, pose, hair. The assembled sequence goes through these
  sections in this order: each gives its text part, which begins with the heading of the
  section, then its inline image part if the image could be fetched; the text parts of
  the sequence are those of the sections in their order, and the images of the sequence
  are the images of the sections in their order. A configuration whose entries were
  inserted in another order is assembled into the same sequence and the same mapping.
\<close>

theorem parts_in_section_order:
  "subseq (map fst (labelled_references config))
     (section_order (length (get_additional_items config)))
   \<and> map kind (fst (prepare_image_parts fetch config))
       = concat (map (label_kinds fetch) (labelled_references config))
   \<and> list_all2 (\<lambda>r t. prefix (heading (fst r)) t) (labelled_references config)
       (texts (fst (prepare_image_parts fetch config)))
   \<and> images (fst (prepare_image_parts fetch config))
       = concat (map (fetched fetch) (labelled_references config))
   \<and> (distinct (map key_of config) \<and> mset config' = mset config \<longrightarrow>
        prepare_image_parts fetch config' = prepare_image_parts fetch config)"
  using labelled_references_subseq [of config] prepare_image_parts_kinds [of fetch config]
    prepare_image_parts_texts [of config fetch] prepare_image_parts_images [of fetch config]
    prepare_image_parts_reordered [of config config' fetch]
  by simp

theorem parts_in_section_order_witness:
  "distinct (map key_of styled_config)
   \<and> mset styled_config_again = mset styled_config
   \<and> styled_config_again \<noteq> styled_config
   \<and> prepare_image_parts selective_fetch styled_config_again
       = prepare_image_parts selective_fetch styled_config
   \<and> map kind (fst (prepare_image_parts selective_fetch styled_config))
       = [TextPart, InlineImagePart, TextPart, InlineImagePart, TextPart, InlineImagePart,
          TextPart, InlineImagePart, TextPart, InlineImagePart, TextPart, InlineImagePart,
          TextPart, TextPart, InlineImagePart]
   \<and> images (fst (prepare_image_parts selective_fetch styled_config))
       = [''https://bucket/model.jpg'', ''https://bucket/outfit.jpg'',
          ''https://bucket/jacket.jpg'', ''https://bucket/bag.jpg'',
          ''https://bucket/necklace.jpg'', ''https://bucket/background.jpg'',
          ''https://bucket/hair.jpg'']"
proof -
  have d: "distinct (map key_of styled_config)"
    by (simp add: styled_config_def)
  have m: "mset styled_config_again = mset styled_config"
    by (simp add: styled_config_def styled_config_again_def)
  have n: "styled_config_again \<noteq> styled_config"
    by (simp add: styled_config_def styled_config_again_def)
  from parts_in_section_order [of styled_config selective_fetch styled_config_again] d m n
  show ?thesis
    by (simp add: labelled_references_styled_config label_kinds_def fetched_def
        selective_fetch_def)
qed

text \<open>
  C1. The mapping holds a label exactly for the sections whose image reference is set (a
  jewelry location also has to be enabled), whether or not the image could be fetched; the
  labels are pairwise different; every such section contributes one text part, followed by
  one inline image part exactly when its fetch succeeds, in the order of the sections. So
  there are as many text parts as labels, and as many inline image parts as labelled
  references that could be fetched.
\<close>

theorem labels_follow_image_references:
  "dom (snd (prepare_image_parts fetch config)) = fst ` set (labelled_references config)
   \<and> distinct (map fst (labelled_references config))
   \<and> map kind (fst (prepare_image_parts fetch config))
       = concat (map (label_kinds fetch) (labelled_references config))
   \<and> length (filter (\<lambda>p. kind p = TextPart) (fst (prepare_image_parts fetch config)))
       = card (dom (snd (prepare_image_parts fetch config)))
   \<and> length (filter (\<lambda>p. kind p = InlineImagePart) (fst (prepare_image_parts fetch config)))
       = length (filter (\<lambda>r. fetch (snd r) \<noteq> None) (labelled_references config))"
proof -
  let ?parts = "fst (prepare_image_parts fetch config)"
  let ?refs = "labelled_references config"
  have kinds: "map kind ?parts = concat (map (label_kinds fetch) ?refs)"
    by (rule prepare_image_parts_kinds)
  have labels: "dom (snd (prepare_image_parts fetch config)) = fst ` set ?refs"
    by (rule prepare_image_parts_dom)
  have different: "distinct (map fst ?refs)"
    by (rule labelled_references_distinct)
  have "card (fst ` set ?refs) = length (map fst ?refs)"
    using different distinct_card [of "map fst ?refs"] by simp
  then have card: "card (dom (snd (prepare_image_parts fetch config))) = length ?refs"
    by (simp add: labels)
  have count: "length (filter (\<lambda>p. kind p = k) ?parts)
      = length (filter (\<lambda>k'. k' = k) (map kind ?parts))" for k
    by (simp add: filter_map o_def)
  have texts: "length (filter (\<lambda>p. kind p = TextPart) ?parts) = length ?refs"
    by (simp only: count kinds text_count)
  have images: "length (filter (\<lambda>p. kind p = InlineImagePart) ?parts)
      = length (filter (\<lambda>r. fetch (snd r) \<noteq> None) ?refs)"
    by (simp only: count kinds inline_image_count)
  from labels different kinds texts card images show ?thesis
    by simp
qed

theorem label_registered_when_fetch_fails:
  "snd (prepare_image_parts failing_fetch model_image_config) ''model_ref''
     = Some ''the model reference image (Image 1)''
   \<and> map kind (fst (prepare_image_parts failing_fetch model_image_config)) = [TextPart]"
  by (simp add: prepare_image_parts_def Let_def add_model_reference_def add_base_outfit_def
      add_additional_items_def add_neck_jewelry_def add_ears_jewelry_def add_hands_jewelry_def
      add_environment_def add_pose_def add_hair_def add_reference_def add_image_part_def
      failing_fetch_def model_image_config_def
      get_model_reference_def get_base_outfit_def get_additional_items_def get_jewelry_def
      get_environment_def get_photography_def get_location_def get_pose_def get_hair_def
      lookup_def enabled_def truthy_def str_val_def
      blank_model_reference_def red_silk_dress_outfit_def blank_jewelry_def blank_location_def
      blank_environment_def blank_photography_def)

theorem labels_follow_image_references_witness:
  "dom (snd (prepare_image_parts failing_fetch styled_config))
     = {''model_ref'', ''outfit'', ''item_0'', ''item_2'', ''jewelry_neck'', ''environment'',
        ''pose'', ''hair''}
   \<and> map kind (fst (prepare_image_parts failing_fetch styled_config)) = replicate 8 TextPart
   \<and> dom (snd (prepare_image_parts constant_fetch styled_config))
       = dom (snd (prepare_image_parts failing_fetch styled_config))
   \<and> map kind (fst (prepare_image_parts constant_fetch styled_config))
       = concat (replicate 8 [TextPart, InlineImagePart])
   \<and> dom (snd (prepare_image_parts failing_fetch model_image_config)) = {''model_ref''}
   \<and> length (filter (\<lambda>p. kind p = InlineImagePart)
               (fst (prepare_image_parts failing_fetch model_image_config))) = 0"
  using labels_follow_image_references [of failing_fetch styled_config]
    labels_follow_image_references [of constant_fetch styled_config]
    labels_follow_image_references [of failing_fetch model_image_config]
  by (simp add: labelled_references_styled_config labelled_references_model_image_config
      label_kinds_def failing_fetch_def constant_fetch_def numeral_eq_Suc)


end
